theory Spec2Isabelle
  imports Complex_Main
begin

section \<open>Python values, errors and dictionaries\<close>

text \<open>
  The simulator receives dynamically typed arguments, and several of its checks look at
  the type of a value (\<^verbatim>\<open>type(x) is not int\<close>) or compare a value with a type object
  (\<^verbatim>\<open>em_gain not in [float, int]\<close>). Values therefore carry their Python type.
  A float is represented by the real number it stands for: the literals \<^verbatim>\<open>0.1\<close> and
  \<^verbatim>\<open>1e-5\<close> of the source are the reals \<open>1/10\<close> and \<open>1/100000\<close>, and there is no NaN,
  no infinity and no negative zero.
\<close>

datatype pytype = TInt | TFloat | TBool | TStr | TNone | TType

datatype pyval =
    PyInt int
  | PyFloat real
  | PyBool bool
  | PyStr string
  | PyNone
  | PyType pytype

fun type_of :: "pyval \<Rightarrow> pytype" where
  "type_of (PyInt n) = TInt"
| "type_of (PyFloat r) = TFloat"
| "type_of (PyBool b) = TBool"
| "type_of (PyStr s) = TStr"
| "type_of PyNone = TNone"
| "type_of (PyType t) = TType"

datatype error = ValueError | KeyError | TypeError

text \<open>The numeric value of an int, a float or a bool (\<^verbatim>\<open>True == 1\<close>); nothing else is a number.\<close>

fun num_of :: "pyval \<Rightarrow> real option" where
  "num_of (PyInt n) = Some (of_int n)"
| "num_of (PyFloat r) = Some r"
| "num_of (PyBool b) = Some (if b then 1 else 0)"
| "num_of (PyStr s) = None"
| "num_of PyNone = None"
| "num_of (PyType t) = None"

text \<open>Python's \<^verbatim>\<open>==\<close>: numbers compare by value across int, float and bool.\<close>

fun py_eq :: "pyval \<Rightarrow> pyval \<Rightarrow> bool" where
  "py_eq (PyStr s) (PyStr t) = (s = t)"
| "py_eq PyNone PyNone = True"
| "py_eq (PyType a) (PyType b) = (a = b)"
| "py_eq a b = (case num_of a of None \<Rightarrow> False
                | Some x \<Rightarrow> (case num_of b of None \<Rightarrow> False | Some y \<Rightarrow> x = y))"

text \<open>\<^verbatim>\<open>x in [y1, ..., yn]\<close> on a list literal.\<close>

fun py_in :: "pyval \<Rightarrow> pyval list \<Rightarrow> bool" where
  "py_in x [] = False"
| "py_in x (y # ys) = (py_eq x y \<or> py_in x ys)"

text \<open>
  Ordering against a numeric literal. Every ordering comparison of the source has a number
  on its right-hand side, and Python raises \<^verbatim>\<open>TypeError\<close> when the left-hand side is
  a string, \<^verbatim>\<open>None\<close> or a type object.
\<close>

definition lt_num :: "pyval \<Rightarrow> real \<Rightarrow> error + bool" where
  "lt_num v c = (case num_of v of None \<Rightarrow> Inl TypeError | Some x \<Rightarrow> Inr (x < c))"

definition gt_num :: "pyval \<Rightarrow> real \<Rightarrow> error + bool" where
  "gt_num v c = (case num_of v of None \<Rightarrow> Inl TypeError | Some x \<Rightarrow> Inr (x > c))"

definition le_num :: "pyval \<Rightarrow> real \<Rightarrow> error + bool" where
  "le_num v c = (case num_of v of None \<Rightarrow> Inl TypeError | Some x \<Rightarrow> Inr (x \<le> c))"

definition ge_num :: "pyval \<Rightarrow> real \<Rightarrow> error + bool" where
  "ge_num v c = (case num_of v of None \<Rightarrow> Inl TypeError | Some x \<Rightarrow> Inr (x \<ge> c))"

text \<open>Sequencing of statements that may raise: the first exception ends the run.\<close>

definition and_then :: "error + 'a \<Rightarrow> ('a \<Rightarrow> error + 'b) \<Rightarrow> error + 'b" where
  "and_then m f = (case m of Inl e \<Rightarrow> Inl e | Inr v \<Rightarrow> f v)"

text \<open>\<^verbatim>\<open>a or b\<close>: the right operand is evaluated only when the left one is false.\<close>

definition or_else :: "error + bool \<Rightarrow> error + bool \<Rightarrow> error + bool" where
  "or_else a b = and_then a (\<lambda>x. if x then Inr True else b)"

text \<open>
  A dictionary with string keys, in insertion order. Python keeps the keys distinct, so
  the dictionaries the program can receive are those with \<open>distinct (keys d)\<close>.
\<close>

type_synonym pydict = "(string \<times> pyval) list"

definition keys :: "pydict \<Rightarrow> string list" where
  "keys d = map fst d"

definition getitem :: "pydict \<Rightarrow> string \<Rightarrow> error + pyval" where
  "getitem d k = (case map_of d k of None \<Rightarrow> Inl KeyError | Some v \<Rightarrow> Inr v)"

section \<open>Artificial_Image_Simulator (src/code/AIS/AIS.py)\<close>

subsection \<open>\<^verbatim>\<open>_configure_gain\<close>\<close>

text \<open>
  The index of the calibration row, lines 286 to 305 of \<^verbatim>\<open>_configure_gain\<close>.
\<close>

definition tab_index :: "pyval \<Rightarrow> pyval \<Rightarrow> pyval \<Rightarrow> error + int" where
  "tab_index em_mode hss preamp =
     and_then
       (if py_eq hss (PyFloat 0.1) then Inr 23
        else if py_eq hss (PyInt 1) then Inr (if py_eq em_mode (PyInt 1) then 15 else 19)
        else if py_eq hss (PyInt 10) then Inr 11
        else if py_eq hss (PyInt 20) then Inr 7
        else if py_eq hss (PyInt 30) then Inr 3
        else Inl ValueError)
       (\<lambda>t. Inr (if py_eq preamp (PyInt 2) then t + 2 else t))"

text \<open>
  The workbook of a channel is read through \<^verbatim>\<open>openpyxl\<close>; its content is not part of
  the source, so the spreadsheet is a parameter: channel, row and column give the cell's
  value. \<^verbatim>\<open>_configure_gain\<close> stores the value of column 5 of the row as the CCD gain.
\<close>

type_synonym spreadsheet = "pyval \<Rightarrow> int \<Rightarrow> int \<Rightarrow> pyval"

definition configure_gain :: "spreadsheet \<Rightarrow> pyval \<Rightarrow> pydict \<Rightarrow> error + pyval" where
  "configure_gain sheet channel d =
     and_then (getitem d ''em_mode'') (\<lambda>em_mode.
     and_then (getitem d ''hss'') (\<lambda>hss.
     and_then (getitem d ''preamp'') (\<lambda>preamp.
     and_then (tab_index em_mode hss preamp) (\<lambda>i.
     Inr (sheet channel i 5)))))"

subsection \<open>\<^verbatim>\<open>_verify_ccd_operation_mode\<close>\<close>

definition raise_if :: "bool \<Rightarrow> error \<Rightarrow> error + unit" where
  "raise_if c e = (if c then Inl e else Inr ())"

definition dic_keywords_list :: "string list" where
  "dic_keywords_list =
     [''binn'', ''ccd_temp'', ''em_gain'', ''em_mode'', ''hss'', ''preamp'', ''t_exp'']"

text \<open>The loop over the keys (lines 203 to 206): the first key that is no keyword raises.\<close>

fun check_keys :: "string list \<Rightarrow> string list \<Rightarrow> error + unit" where
  "check_keys kws [] = Inr ()"
| "check_keys kws (key # rest) =
     (if key \<notin> set kws then Inl ValueError else check_keys kws rest)"

text \<open>
  \<^verbatim>\<open>list.sort()\<close> sorts the list in place and returns \<^verbatim>\<open>None\<close>; line 208 compares
  the two return values.
\<close>

definition list_sort :: "string list \<Rightarrow> pyval" where
  "list_sort xs = PyNone"

text \<open>Lines 212 to 251: the checks of the seven values.\<close>

definition verify_values ::
  "pyval \<Rightarrow> pyval \<Rightarrow> pyval \<Rightarrow> pyval \<Rightarrow> pyval \<Rightarrow> pyval \<Rightarrow> pyval \<Rightarrow> error + unit" where
  "verify_values em_mode em_gain hss preamp binn t_exp ccd_temp =
     and_then (raise_if (\<not> py_in em_mode [PyInt 0, PyInt 1]) ValueError) (\<lambda>_.
     and_then
       (if py_eq em_mode (PyInt 0) then raise_if (\<not> py_eq em_gain (PyInt 1)) ValueError
        else if \<not> py_in em_gain [PyType TFloat, PyType TInt] then Inl ValueError
        else and_then (or_else (lt_num em_gain 2) (gt_num em_gain 300))
               (\<lambda>c. raise_if c ValueError)) (\<lambda>_.
     and_then (raise_if (\<not> py_in preamp [PyInt 1, PyInt 2]) ValueError) (\<lambda>_.
     and_then (raise_if (\<not> py_in hss [PyFloat 0.1, PyInt 1, PyInt 10, PyInt 20, PyInt 30])
                 ValueError) (\<lambda>_.
     and_then (raise_if (\<not> py_in binn [PyInt 1, PyInt 2]) ValueError) (\<lambda>_.
     and_then
       (if type_of t_exp \<notin> {TFloat, TInt} then Inl ValueError
        else and_then (lt_num t_exp (1 / 100000)) (\<lambda>c. raise_if c ValueError)) (\<lambda>_.
     and_then (raise_if (type_of ccd_temp \<notin> {TFloat, TInt}) ValueError) (\<lambda>_.
     and_then (or_else (lt_num ccd_temp (- 80)) (gt_num ccd_temp 20))
       (\<lambda>c. raise_if c ValueError))))))))"

definition verify_ccd_operation_mode :: "pydict \<Rightarrow> error + unit" where
  "verify_ccd_operation_mode d =
     and_then (getitem d ''em_mode'') (\<lambda>em_mode.
     and_then (getitem d ''em_gain'') (\<lambda>em_gain.
     and_then (getitem d ''hss'') (\<lambda>hss.
     and_then (getitem d ''preamp'') (\<lambda>preamp.
     and_then (getitem d ''binn'') (\<lambda>binn.
     and_then (getitem d ''t_exp'') (\<lambda>t_exp.
     and_then (getitem d ''ccd_temp'') (\<lambda>ccd_temp.
     and_then (check_keys dic_keywords_list (keys d)) (\<lambda>_.
     and_then (raise_if (\<not> py_eq (list_sort (keys d)) (list_sort dic_keywords_list))
                 ValueError) (\<lambda>_.
     verify_values em_mode em_gain hss preamp binn t_exp ccd_temp)))))))))"

subsection \<open>\<^verbatim>\<open>_configure_image_name\<close>\<close>

text \<open>
  \<^verbatim>\<open>str\<close> of a value. An int is printed in decimal. A float whose value is a whole
  number below \<open>10\<^sup>1\<^sup>6\<close> in magnitude is printed as that number followed by \<^verbatim>\<open>.0\<close>
  (\<^verbatim>\<open>str(1.0)\<close> is \<^verbatim>\<open>1.0\<close>, \<^verbatim>\<open>str(-70.0)\<close> is \<^verbatim>\<open>-70.0\<close>); for every other float the
  shortest round-trip representation that Python prints is a parameter.
\<close>

fun str_nat :: "nat \<Rightarrow> string" where
  "str_nat n =
     (if n < 10 then [''0123456789'' ! n]
      else str_nat (n div 10) @ [''0123456789'' ! (n mod 10)])"

declare str_nat.simps [simp del]

definition str_int :: "int \<Rightarrow> string" where
  "str_int i = (if i < 0 then CHR ''-'' # str_nat (nat (- i)) else str_nat (nat i))"

fun type_name :: "pytype \<Rightarrow> string" where
  "type_name TInt = ''int''"
| "type_name TFloat = ''float''"
| "type_name TBool = ''bool''"
| "type_name TStr = ''str''"
| "type_name TNone = ''NoneType''"
| "type_name TType = ''type''"

fun py_str :: "(real \<Rightarrow> string) \<Rightarrow> pyval \<Rightarrow> string" where
  "py_str float_repr (PyInt n) = str_int n"
| "py_str float_repr (PyFloat r) =
     (if of_int \<lfloor>r\<rfloor> = r \<and> \<bar>r\<bar> < 10 ^ 16 then str_int \<lfloor>r\<rfloor> @ ''.0''
      else float_repr r)"
| "py_str float_repr (PyBool b) = (if b then ''True'' else ''False'')"
| "py_str float_repr (PyStr s) = s"
| "py_str float_repr PyNone = ''None''"
| "py_str float_repr (PyType t) =
     ''<class '' @ [CHR 0x27] @ type_name t @ [CHR 0x27] @ ''>''"

definition configure_image_name ::
  "(real \<Rightarrow> string) \<Rightarrow> pyval \<Rightarrow> pydict \<Rightarrow> bool \<Rightarrow> error + string" where
  "configure_image_name float_repr star_flux dic include_star_flux =
     and_then (getitem dic ''em_gain'') (\<lambda>g.
     and_then (getitem dic ''em_mode'') (\<lambda>m.
     and_then (getitem dic ''hss'') (\<lambda>h.
     and_then (getitem dic ''preamp'') (\<lambda>p.
     and_then (getitem dic ''binn'') (\<lambda>b.
     and_then (getitem dic ''t_exp'') (\<lambda>t.
       let em_gain = ''_G'' @ py_str float_repr g;
           em_mode = (if py_eq m (PyInt 1) then ''EM'' else ''CONV'');
           hss = ''_HSS'' @ py_str float_repr h;
           preamp = ''_PA'' @ py_str float_repr p;
           binn = ''_B'' @ py_str float_repr b;
           t_exp = ''_TEXP'' @ py_str float_repr t;
           image_name = em_mode @ hss @ preamp @ binn @ t_exp @ em_gain
       in Inr (if include_star_flux
               then image_name @ ''_S'' @ py_str float_repr star_flux
               else image_name)))))))"

subsection \<open>\<^verbatim>\<open>__init__\<close>\<close>

text \<open>
  The constructor has two parts. Lines 122 to 172 check the scalar parameters, assign
  them to the attributes, validate the operation mode and configure the gain and the
  image name: this part is \<open>init_checks\<close>, and the record holds the attributes it has
  assigned. Lines 174 to 188 build the channel and the other objects: this part, and the
  whole constructor \<open>init\<close>, follow the channel classes below.
\<close>

record ais =
  star_flux :: pyval
  sky_flux :: pyval
  gaussian_std :: pyval
  channel :: pyval
  bias_level :: pyval
  image_dir :: string
  ccd_gain :: pyval
  image_name :: string

text \<open>Lines 122 to 128 (star flux) and 130 to 136 (sky flux).\<close>

definition check_flux :: "pyval \<Rightarrow> error + pyval" where
  "check_flux x =
     (if type_of x \<notin> {TInt, TFloat} then Inl ValueError
      else and_then (le_num x 0) (\<lambda>c. if c then Inl ValueError else Inr x))"

text \<open>Lines 138 to 145.\<close>

definition check_gaussian_std :: "pyval \<Rightarrow> error + pyval" where
  "check_gaussian_std x =
     (if type_of x \<noteq> TInt then Inl ValueError
      else and_then (le_num x 0) (\<lambda>c. if c then Inl ValueError else Inr x))"

text \<open>Lines 147 to 151.\<close>

definition check_channel :: "pyval \<Rightarrow> error + pyval" where
  "check_channel x =
     (if py_in x [PyInt 1, PyInt 2, PyInt 3, PyInt 4] then Inr x else Inl ValueError)"

text \<open>Lines 153 to 159.\<close>

definition check_bias_level :: "pyval \<Rightarrow> error + pyval" where
  "check_bias_level x =
     (if type_of x \<noteq> TInt then Inl ValueError
      else and_then (le_num x 0) (\<lambda>c. if c then Inl ValueError else Inr x))"

text \<open>
  Lines 161 to 168. \<^verbatim>\<open>image_dir[-1]\<close> is the last character of a non-empty string,
  and a backslash is \<^verbatim>\<open>in\<close> this one-character string exactly when it is that
  character.
\<close>

definition check_image_dir :: "pyval \<Rightarrow> error + string" where
  "check_image_dir x =
     (case x of
        PyStr s \<Rightarrow>
          Inr (if s \<noteq> [] then (if last s \<noteq> CHR 0x5C then s @ [CHR 0x5C] else s) else s)
      | _ \<Rightarrow> Inl ValueError)"

definition init_checks ::
  "spreadsheet \<Rightarrow> (real \<Rightarrow> string) \<Rightarrow>
   pyval \<Rightarrow> pyval \<Rightarrow> pyval \<Rightarrow> pydict \<Rightarrow> pyval \<Rightarrow> pyval \<Rightarrow> pyval \<Rightarrow> error + ais" where
  "init_checks sheet float_repr star_flux' sky_flux' gaussian_std' ccd_operation_mode channel'
        bias_level' image_dir' =
     and_then (check_flux star_flux') (\<lambda>sf.
     and_then (check_flux sky_flux') (\<lambda>sk.
     and_then (check_gaussian_std gaussian_std') (\<lambda>sd.
     and_then (check_channel channel') (\<lambda>ch.
     and_then (check_bias_level bias_level') (\<lambda>bl.
     and_then (check_image_dir image_dir') (\<lambda>dir.
     and_then (verify_ccd_operation_mode ccd_operation_mode) (\<lambda>_.
     and_then (configure_gain sheet ch ccd_operation_mode) (\<lambda>g.
     and_then (configure_image_name float_repr sf ccd_operation_mode False) (\<lambda>name.
     Inr \<lparr>star_flux = sf, sky_flux = sk, gaussian_std = sd, channel = ch,
          bias_level = bl, image_dir = dir, ccd_gain = g, image_name = name\<rparr>)))))))))"

subsection \<open>\<^verbatim>\<open>create_artificial_image\<close>\<close>

text \<open>
  An image is a list of rows. \<^verbatim>\<open>background + star_PSF\<close> is numpy's addition of two
  arrays; for two arrays of the same shape it adds them element by element, with the
  addition of the element type. The broadcasting that numpy applies to arrays of
  different shapes is outside the model: \<open>np_add\<close> is \<open>None\<close> there.
\<close>

type_synonym 'a image = "'a list list"

definition np_add :: "('a::plus) image \<Rightarrow> 'a image \<Rightarrow> 'a image option" where
  "np_add a b =
     (if map length a = map length b
      then Some (map2 (\<lambda>ra rb. map2 (\<lambda>x y. x + y) ra rb) a b)
      else None)"

text \<open>
  The outputs of \<^verbatim>\<open>create_background_image\<close>, \<^verbatim>\<open>create_star_PSF\<close> and
  \<^verbatim>\<open>create_header\<close> are parameters (these classes are not part of the source).
  \<^verbatim>\<open>fits.writeto\<close> with \<^verbatim>\<open>overwrite=True\<close> stores the data and the header under the
  file name; the files are a map from names to contents.
\<close>

definition create_artificial_image ::
  "ais \<Rightarrow> ('a::plus) image \<Rightarrow> 'a image \<Rightarrow> 'h \<Rightarrow>
   (string \<rightharpoonup> 'a image \<times> 'h) \<Rightarrow> (string \<rightharpoonup> 'a image \<times> 'h) option" where
  "create_artificial_image self background star_PSF header files =
     (case np_add background star_PSF of
        None \<Rightarrow> None
      | Some img \<Rightarrow>
          Some (files(image_dir self @ image_name self @ ''.fits'' \<mapsto> (img, header))))"

section \<open>Channel creator (src/code/CHC/channel_creator.py)\<close>

datatype channel_class =
    Abstract_Channel_Creator
  | Concrete_Channel_1
  | Concrete_Channel_2
  | Concrete_Channel_3
  | Concrete_Channel_4

fun CHANNEL_ID :: "channel_class \<Rightarrow> nat" where
  "CHANNEL_ID Abstract_Channel_Creator = 0"
| "CHANNEL_ID Concrete_Channel_1 = 1"
| "CHANNEL_ID Concrete_Channel_2 = 2"
| "CHANNEL_ID Concrete_Channel_3 = 3"
| "CHANNEL_ID Concrete_Channel_4 = 4"

fun SERIAL_NUMBER :: "channel_class \<Rightarrow> nat" where
  "SERIAL_NUMBER Abstract_Channel_Creator = 0"
| "SERIAL_NUMBER Concrete_Channel_1 = 9914"
| "SERIAL_NUMBER Concrete_Channel_2 = 9915"
| "SERIAL_NUMBER Concrete_Channel_3 = 9916"
| "SERIAL_NUMBER Concrete_Channel_4 = 9917"

text \<open>
  \<^verbatim>\<open>calculate_dark_current\<close> of each class, on the temperature \<open>T\<close> stored in
  \<^verbatim>\<open>self.ccd_temp\<close>. The arithmetic is that of the real numbers: the rounding of
  floating-point multiplication and of \<^verbatim>\<open>np.exp\<close> is not modelled.
\<close>

fun calculate_dark_current :: "channel_class \<Rightarrow> real \<Rightarrow> real" where
  "calculate_dark_current Abstract_Channel_Creator T = 0"
| "calculate_dark_current Concrete_Channel_1 T = 24.66 * exp (0.0015 * T\<^sup>2 + 0.29 * T)"
| "calculate_dark_current Concrete_Channel_2 T = 35.26 * exp (0.0019 * T\<^sup>2 + 0.31 * T)"
| "calculate_dark_current Concrete_Channel_3 T = 9.67 * exp (0.0012 * T\<^sup>2 + 0.25 * T)"
| "calculate_dark_current Concrete_Channel_4 T = 5.92 * exp (0.0005 * T\<^sup>2 + 0.18 * T)"

text \<open>
  The coefficients as the specification lists them, by channel number, for comparison
  with the classes.
\<close>

fun spec_coefficients :: "nat \<Rightarrow> real \<times> real \<times> real" where
  "spec_coefficients c =
     (if c = 1 then (24.66, 0.0015, 0.29)
      else if c = 2 then (35.26, 0.0019, 0.31)
      else if c = 3 then (9.67, 0.0012, 0.25)
      else (5.92, 0.0005, 0.18))"

text \<open>
  \<^verbatim>\<open>Abstract_Channel_Creator.__init__(self, ccd_temp, sparc4_acquisition_mode)\<close>, line
  38, which the four concrete classes inherit: a call needs exactly two positional
  arguments, and Python raises \<^verbatim>\<open>TypeError\<close> for any other number.
\<close>

record channel_creator =
  chc_class :: channel_class
  chc_ccd_temp :: pyval
  chc_sparc4_acquisition_mode :: pyval

definition new_channel :: "channel_class \<Rightarrow> pyval list \<Rightarrow> error + channel_creator" where
  "new_channel cls args =
     (case args of
        [t, m] \<Rightarrow>
          Inr \<lparr>chc_class = cls, chc_ccd_temp = t, chc_sparc4_acquisition_mode = m\<rparr>
      | _ \<Rightarrow> Inl TypeError)"

section \<open>The constructor of Artificial_Image_Simulator\<close>

text \<open>
  Lines 174 to 183 of src/code/AIS/AIS.py: \<^verbatim>\<open>CHC\<close> starts as 0 (here \<open>None\<close>) and
  becomes the channel object of the class chosen by \<^verbatim>\<open>channel\<close>, which is called with
  the CCD temperature as its only argument.
\<close>

definition create_channel :: "pyval \<Rightarrow> pydict \<Rightarrow> error + channel_creator option" where
  "create_channel channel' ccd_operation_mode =
     (if py_eq channel' (PyInt 1) then
        and_then (getitem ccd_operation_mode ''ccd_temp'') (\<lambda>T.
        and_then (new_channel Concrete_Channel_1 [T]) (\<lambda>c. Inr (Some c)))
      else if py_eq channel' (PyInt 2) then
        and_then (getitem ccd_operation_mode ''ccd_temp'') (\<lambda>T.
        and_then (new_channel Concrete_Channel_2 [T]) (\<lambda>c. Inr (Some c)))
      else if py_eq channel' (PyInt 3) then
        and_then (getitem ccd_operation_mode ''ccd_temp'') (\<lambda>T.
        and_then (new_channel Concrete_Channel_3 [T]) (\<lambda>c. Inr (Some c)))
      else if py_eq channel' (PyInt 4) then
        and_then (getitem ccd_operation_mode ''ccd_temp'') (\<lambda>T.
        and_then (new_channel Concrete_Channel_4 [T]) (\<lambda>c. Inr (Some c)))
      else Inr None)"

text \<open>
  The whole constructor. \<^verbatim>\<open>Point_Spread_Function\<close>, \<^verbatim>\<open>Background_Image\<close> and
  \<^verbatim>\<open>Header\<close> (lines 184 to 188) are not part of the source: their construction is the
  parameter \<open>collaborators\<close>, which receives the attributes assigned so far and the
  channel and returns the finished object or raises.
\<close>

definition init ::
  "(ais \<Rightarrow> channel_creator option \<Rightarrow> error + 'obj) \<Rightarrow> spreadsheet \<Rightarrow> (real \<Rightarrow> string) \<Rightarrow>
   pyval \<Rightarrow> pyval \<Rightarrow> pyval \<Rightarrow> pydict \<Rightarrow> pyval \<Rightarrow> pyval \<Rightarrow> pyval \<Rightarrow> error + 'obj" where
  "init collaborators sheet float_repr star_flux' sky_flux' gaussian_std'
        ccd_operation_mode channel' bias_level' image_dir' =
     and_then (init_checks sheet float_repr star_flux' sky_flux' gaussian_std'
                 ccd_operation_mode channel' bias_level' image_dir') (\<lambda>self.
     and_then (create_channel channel' ccd_operation_mode) (\<lambda>CHC.
     collaborators self CHC))"


section \<open>Artificial_Images_Simulator (src/AIS/AIS.py)\<close>

text \<open>
  The second revision of the simulator. Its definitions carry the suffix \<open>_imgs\<close>.
\<close>

definition dic_keywords_list_imgs :: "string list" where
  "dic_keywords_list_imgs =
     [''em_mode'', ''em_gain'', ''preamp'', ''hss'', ''bin'', ''t_exp'', ''ccd_temp'']"

text \<open>
  \<^verbatim>\<open>_verify_ccd_operation_mode\<close>, lines 200 to 236. Line 207 compares the list of the
  dictionary's keys, in insertion order, with the list of keywords. The values are read
  from the dictionary where each check uses them.
\<close>

definition verify_ccd_operation_mode_imgs :: "pydict \<Rightarrow> error + unit" where
  "verify_ccd_operation_mode_imgs d =
     and_then (check_keys dic_keywords_list_imgs (keys d)) (\<lambda>_.
     and_then (raise_if (keys d \<noteq> dic_keywords_list_imgs) ValueError) (\<lambda>_.
     and_then (getitem d ''em_mode'') (\<lambda>em_mode.
     and_then (raise_if (\<not> py_in em_mode [PyInt 0, PyInt 1]) ValueError) (\<lambda>_.
     and_then (getitem d ''em_mode'') (\<lambda>em_mode.
     and_then
       (if py_eq em_mode (PyInt 0)
        then and_then (getitem d ''em_gain'') (\<lambda>em_gain.
               raise_if (\<not> py_eq em_gain (PyInt 1)) ValueError)
        else and_then
               (or_else (and_then (getitem d ''em_gain'') (\<lambda>em_gain. lt_num em_gain 2))
                        (and_then (getitem d ''em_gain'') (\<lambda>em_gain. gt_num em_gain 300)))
               (\<lambda>c. raise_if c ValueError)) (\<lambda>_.
     and_then (getitem d ''preamp'') (\<lambda>preamp.
     and_then (raise_if (\<not> py_in preamp [PyInt 1, PyInt 2]) ValueError) (\<lambda>_.
     and_then (getitem d ''hss'') (\<lambda>hss.
     and_then (raise_if (\<not> py_in hss [PyFloat 0.1, PyInt 1, PyInt 10, PyInt 20, PyInt 30])
                 ValueError) (\<lambda>_.
     and_then (getitem d ''bin'') (\<lambda>bin.
     and_then (raise_if (\<not> py_in bin [PyInt 1, PyInt 2]) ValueError) (\<lambda>_.
     and_then (getitem d ''t_exp'') (\<lambda>t_exp.
     and_then (lt_num t_exp (1 / 100000)) (\<lambda>c.
     and_then (raise_if c ValueError) (\<lambda>_.
     and_then
       (or_else (and_then (getitem d ''ccd_temp'') (\<lambda>ccd_temp. lt_num ccd_temp (- 80)))
                (and_then (getitem d ''ccd_temp'') (\<lambda>ccd_temp. gt_num ccd_temp 20)))
       (\<lambda>c. raise_if c ValueError))))))))))))))))"

text \<open>
  The attributes that lines 128 to 176 assign, and the object with the attributes that
  lines 191 to 194 add at the end of the constructor.
\<close>

record ais_imgs =
  star_flux_imgs :: pyval
  sky_flux_imgs :: pyval
  gaussian_stddev_imgs :: pyval
  ccd_operation_mode_imgs :: pydict
  channel_imgs :: pyval
  bias_level_imgs :: pyval
  image_dir_imgs :: string

record ais_imgs_obj = ais_imgs +
  image_name_imgs :: string
  dark_current_imgs :: pyval
  read_noise_imgs :: pyval
  gain_imgs :: pyval

text \<open>Lines 128 to 134 and 136 to 142: the value is stored when it is positive.\<close>

definition check_flux_imgs :: "pyval \<Rightarrow> error + pyval" where
  "check_flux_imgs x =
     (if type_of x \<notin> {TInt, TFloat} then Inl ValueError
      else and_then (gt_num x 0) (\<lambda>c. if c then Inr x else Inl ValueError))"

text \<open>Lines 144 to 151.\<close>

definition check_gaussian_stddev_imgs :: "pyval \<Rightarrow> error + pyval" where
  "check_gaussian_stddev_imgs x =
     (if type_of x \<noteq> TInt then Inl ValueError
      else and_then (gt_num x 0) (\<lambda>c. if c then Inr x else Inl ValueError))"

text \<open>Lines 161 to 167.\<close>

definition check_bias_level_imgs :: "pyval \<Rightarrow> error + pyval" where
  "check_bias_level_imgs x =
     (if type_of x \<noteq> TInt then Inl ValueError
      else and_then (ge_num x 0) (\<lambda>c. if c then Inr x else Inl ValueError))"

text \<open>
  Lines 128 to 176 of the constructor, \<open>init_checks_imgs\<close>. The operation mode is
  verified before the channel, the bias level and the directory are looked at. The
  checks of the channel (lines 155 to 159) and of the directory (lines 169 to 176) are
  those of the other revision.
\<close>

definition init_checks_imgs ::
  "pyval \<Rightarrow> pyval \<Rightarrow> pyval \<Rightarrow> pydict \<Rightarrow> pyval \<Rightarrow> pyval \<Rightarrow> pyval \<Rightarrow> error + ais_imgs" where
  "init_checks_imgs star_flux' sky_flux' gaussian_stddev' ccd_operation_mode channel'
        bias_level' image_dir' =
     and_then (check_flux_imgs star_flux') (\<lambda>sf.
     and_then (check_flux_imgs sky_flux') (\<lambda>sk.
     and_then (check_gaussian_stddev_imgs gaussian_stddev') (\<lambda>sd.
     and_then (verify_ccd_operation_mode_imgs ccd_operation_mode) (\<lambda>_.
     and_then (check_channel channel') (\<lambda>ch.
     and_then (check_bias_level_imgs bias_level') (\<lambda>bl.
     and_then (check_image_dir image_dir') (\<lambda>dir.
     Inr \<lparr>star_flux_imgs = sf, sky_flux_imgs = sk, gaussian_stddev_imgs = sd,
          ccd_operation_mode_imgs = ccd_operation_mode, channel_imgs = ch,
          bias_level_imgs = bl, image_dir_imgs = dir\<rparr>)))))))"

text \<open>
  Lines 178 to 187: the channel classes are called without an argument.
\<close>

definition create_channel_imgs :: "pyval \<Rightarrow> error + channel_creator option" where
  "create_channel_imgs channel' =
     (if py_eq channel' (PyInt 1) then
        and_then (new_channel Concrete_Channel_1 []) (\<lambda>c. Inr (Some c))
      else if py_eq channel' (PyInt 2) then
        and_then (new_channel Concrete_Channel_2 []) (\<lambda>c. Inr (Some c))
      else if py_eq channel' (PyInt 3) then
        and_then (new_channel Concrete_Channel_3 []) (\<lambda>c. Inr (Some c))
      else if py_eq channel' (PyInt 4) then
        and_then (new_channel Concrete_Channel_4 []) (\<lambda>c. Inr (Some c))
      else Inr None)"

text \<open>
  The whole constructor. The construction of \<^verbatim>\<open>Point_Spread_Function\<close>,
  \<^verbatim>\<open>Background_Image\<close> and \<^verbatim>\<open>Header\<close> (lines 188 to 190), which are not part of the
  source, is the parameter \<open>collaborators\<close>; lines 191 to 194 then set the image name
  to the empty string and the three noise attributes to 0.
\<close>

definition init_imgs ::
  "(ais_imgs \<Rightarrow> channel_creator option \<Rightarrow> error + unit) \<Rightarrow>
   pyval \<Rightarrow> pyval \<Rightarrow> pyval \<Rightarrow> pydict \<Rightarrow> pyval \<Rightarrow> pyval \<Rightarrow> pyval \<Rightarrow> error + ais_imgs_obj" where
  "init_imgs collaborators star_flux' sky_flux' gaussian_stddev' ccd_operation_mode channel'
        bias_level' image_dir' =
     and_then (init_checks_imgs star_flux' sky_flux' gaussian_stddev' ccd_operation_mode
                 channel' bias_level' image_dir') (\<lambda>self.
     and_then (create_channel_imgs channel') (\<lambda>CHC.
     and_then (collaborators self CHC) (\<lambda>_.
     Inr \<lparr>star_flux_imgs = star_flux_imgs self, sky_flux_imgs = sky_flux_imgs self,
          gaussian_stddev_imgs = gaussian_stddev_imgs self,
          ccd_operation_mode_imgs = ccd_operation_mode_imgs self,
          channel_imgs = channel_imgs self, bias_level_imgs = bias_level_imgs self,
          image_dir_imgs = image_dir_imgs self, image_name_imgs = [],
          dark_current_imgs = PyInt 0, read_noise_imgs = PyInt 0,
          gain_imgs = PyInt 0\<rparr>)))"

text \<open>\<^verbatim>\<open>_configure_image_name\<close>, lines 253 to 266: the new value of \<^verbatim>\<open>self.image_name\<close>.\<close>

definition configure_image_name_imgs ::
  "(real \<Rightarrow> string) \<Rightarrow> ais_imgs_obj \<Rightarrow> bool \<Rightarrow> error + ais_imgs_obj" where
  "configure_image_name_imgs float_repr self include_star_flux =
     (let dic = ccd_operation_mode_imgs self in
     and_then (getitem dic ''em_gain'') (\<lambda>g.
     and_then (getitem dic ''em_mode'') (\<lambda>m.
     and_then (getitem dic ''hss'') (\<lambda>h.
     and_then (getitem dic ''preamp'') (\<lambda>p.
     and_then (getitem dic ''bin'') (\<lambda>b.
     and_then (getitem dic ''t_exp'') (\<lambda>t.
       let em_gain = ''_G'' @ py_str float_repr g;
           em_mode = (if py_eq m (PyInt 1) then ''EM'' else ''CONV'');
           hss = ''_HSS'' @ py_str float_repr h;
           preamp = ''_PA'' @ py_str float_repr p;
           binn = ''_B'' @ py_str float_repr b;
           t_exp = ''_TEXP'' @ py_str float_repr t;
           name = em_mode @ hss @ preamp @ binn @ t_exp @ em_gain
       in Inr (self\<lparr>image_name_imgs :=
                 (if include_star_flux
                  then name @ ''_S'' @ py_str float_repr (star_flux_imgs self)
                  else name)\<rparr>))))))))"

section \<open>Example inputs\<close>

text \<open>
  A conventional operation mode, a spreadsheet whose cells hold their own address
  (\<open>100 * row + column\<close>), a stand-in for the printing of the floats that are not
  whole numbers (no example below prints one), and collaborators whose construction
  succeeds. \<open>mode_imgs\<close> builds a dictionary in the key order that
  \<^verbatim>\<open>Artificial_Images_Simulator\<close> expects.
\<close>

definition example_mode :: pydict where
  "example_mode =
     [(''em_mode'', PyInt 0), (''em_gain'', PyInt 1), (''preamp'', PyInt 1),
      (''hss'', PyInt 1), (''binn'', PyInt 1), (''t_exp'', PyInt 1),
      (''ccd_temp'', PyInt (- 70))]"

definition example_sheet :: spreadsheet where
  "example_sheet ch row col = PyInt (100 * row + col)"

definition example_repr :: "real \<Rightarrow> string" where
  "example_repr r = ''?''"

definition example_collaborators :: "ais \<Rightarrow> channel_creator option \<Rightarrow> error + unit" where
  "example_collaborators self CHC = Inr ()"

definition example_collaborators_imgs ::
  "ais_imgs \<Rightarrow> channel_creator option \<Rightarrow> error + unit" where
  "example_collaborators_imgs self CHC = Inr ()"

definition mode_imgs ::
  "pyval \<Rightarrow> pyval \<Rightarrow> pyval \<Rightarrow> pyval \<Rightarrow> pyval \<Rightarrow> pyval \<Rightarrow> pyval \<Rightarrow> pydict" where
  "mode_imgs em g p h b t T =
     [(''em_mode'', em), (''em_gain'', g), (''preamp'', p), (''hss'', h), (''bin'', b),
      (''t_exp'', t), (''ccd_temp'', T)]"

section \<open>Basic facts\<close>

lemma and_then_simps [simp]:
  "and_then (Inl e) f = Inl e"
  "and_then (Inr v) f = f v"
  by (simp_all add: and_then_def)

lemma raise_if_simps [simp]:
  "raise_if True e = Inl e"
  "raise_if False e = Inr ()"
  by (simp_all add: raise_if_def)

lemma getitem_Some [simp]: "map_of d k = Some v \<Longrightarrow> getitem d k = Inr v"
  by (simp add: getitem_def)

lemma getitem_None [simp]: "map_of d k = None \<Longrightarrow> getitem d k = Inl KeyError"
  by (simp add: getitem_def)

lemma getitem_cases:
  "getitem d k = Inl KeyError \<and> map_of d k = None \<or>
   (\<exists>v. getitem d k = Inr v \<and> map_of d k = Some v)"
  by (cases "map_of d k") (simp_all add: getitem_def)

lemma getitem_keys: "getitem d k = Inl KeyError \<longleftrightarrow> k \<notin> set (keys d)"
proof -
  have "k \<notin> set (keys d) \<longleftrightarrow> map_of d k = None"
    by (simp add: keys_def map_of_eq_None_iff)
  then show ?thesis
    by (simp add: getitem_def split: option.splits)
qed

text \<open>Equality with a number, a type object or \<^verbatim>\<open>None\<close>, in terms of the value.\<close>

lemma py_eq_num: "num_of b = Some y \<Longrightarrow> py_eq a b = (num_of a = Some y)"
  by (cases a; cases b) (auto split: option.splits)

lemma py_eq_PyType: "py_eq a (PyType t) = (a = PyType t)"
  by (cases a) auto

declare py_eq.simps [simp del]

lemma py_eq_PyInt [simp]: "py_eq a (PyInt n) = (num_of a = Some (of_int n))"
  by (rule py_eq_num) simp

lemma py_eq_PyFloat [simp]: "py_eq a (PyFloat r) = (num_of a = Some r)"
  by (rule py_eq_num) simp

declare py_eq_PyType [simp]

lemma py_eq_PyNone [simp]: "py_eq PyNone PyNone"
  by (simp add: py_eq.simps)

lemma str_nat_digit: "n < 10 \<Longrightarrow> str_nat n = [''0123456789'' ! n]"
  by (simp add: str_nat.simps)

lemma check_keys_subset:
  "check_keys kws ks = (if set ks \<subseteq> set kws then Inr () else Inl ValueError)"
  by (induction ks) auto

text \<open>The checks of the scalar parameters raise \<^verbatim>\<open>ValueError\<close> or return their argument.\<close>

lemma check_flux_cases: "check_flux x = Inl ValueError \<or> check_flux x = Inr x"
  by (cases x) (auto simp: check_flux_def le_num_def)

lemma check_gaussian_std_cases:
  "check_gaussian_std x = Inl ValueError \<or> check_gaussian_std x = Inr x"
  by (cases x) (auto simp: check_gaussian_std_def le_num_def)

lemma check_channel_cases: "check_channel x = Inl ValueError \<or> check_channel x = Inr x"
  by (simp add: check_channel_def)

lemma check_bias_level_cases:
  "check_bias_level x = Inl ValueError \<or> check_bias_level x = Inr x"
  by (cases x) (auto simp: check_bias_level_def le_num_def)

lemma check_flux_imgs_cases:
  "check_flux_imgs x = Inl ValueError \<or> check_flux_imgs x = Inr x"
  by (cases x) (auto simp: check_flux_imgs_def gt_num_def)

lemma check_gaussian_stddev_imgs_cases:
  "check_gaussian_stddev_imgs x = Inl ValueError \<or> check_gaussian_stddev_imgs x = Inr x"
  by (cases x) (auto simp: check_gaussian_stddev_imgs_def gt_num_def)

lemma check_bias_level_imgs_cases:
  "check_bias_level_imgs x = Inl ValueError \<or> check_bias_level_imgs x = Inr x"
  by (cases x) (auto simp: check_bias_level_imgs_def ge_num_def)

text \<open>The example mode passes both validations and the checks of both constructors.\<close>

lemma verify_example_mode: "verify_ccd_operation_mode example_mode = Inr ()"
  by (simp add: verify_ccd_operation_mode_def example_mode_def keys_def
        dic_keywords_list_def list_sort_def verify_values_def lt_num_def gt_num_def
        or_else_def)

lemma verify_example_mode_imgs:
  "verify_ccd_operation_mode_imgs
     (mode_imgs (PyInt 0) (PyInt 1) (PyInt 1) (PyInt 1) (PyInt 1) (PyInt 1) (PyInt (- 70)))
   = Inr ()"
  by (simp add: verify_ccd_operation_mode_imgs_def mode_imgs_def keys_def
        dic_keywords_list_imgs_def lt_num_def gt_num_def or_else_def)

lemma init_checks_example:
  "init_checks example_sheet example_repr (PyInt 100) (PyInt 50) (PyInt 3) example_mode
     (PyInt 1) (PyInt 500) (PyStr []) =
   Inr \<lparr>star_flux = PyInt 100, sky_flux = PyInt 50, gaussian_std = PyInt 3,
        channel = PyInt 1, bias_level = PyInt 500, image_dir = [],
        ccd_gain = PyInt 1905, image_name = ''CONV_HSS1_PA1_B1_TEXP1_G1''\<rparr>"
  by (simp add: init_checks_def check_flux_def check_gaussian_std_def check_channel_def
        check_bias_level_def check_image_dir_def le_num_def verify_example_mode
        configure_gain_def tab_index_def example_sheet_def
        configure_image_name_def str_int_def str_nat_digit)
     (simp add: example_mode_def str_int_def str_nat_digit)

lemma init_checks_imgs_example:
  "init_checks_imgs (PyInt 100) (PyInt 50) (PyInt 3)
     (mode_imgs (PyInt 0) (PyInt 1) (PyInt 1) (PyInt 1) (PyInt 1) (PyInt 1) (PyInt (- 70)))
     (PyInt 1) (PyInt 500) (PyStr []) =
   Inr \<lparr>star_flux_imgs = PyInt 100, sky_flux_imgs = PyInt 50,
        gaussian_stddev_imgs = PyInt 3,
        ccd_operation_mode_imgs =
          mode_imgs (PyInt 0) (PyInt 1) (PyInt 1) (PyInt 1) (PyInt 1) (PyInt 1) (PyInt (- 70)),
        channel_imgs = PyInt 1, bias_level_imgs = PyInt 500, image_dir_imgs = []\<rparr>"
  by (simp add: init_checks_imgs_def check_flux_imgs_def check_gaussian_stddev_imgs_def
        check_channel_def check_bias_level_imgs_def check_image_dir_def gt_num_def
        ge_num_def verify_example_mode_imgs)

text \<open>
  The channel classes are called with one argument, or with none, where their
  constructor takes two: for every channel from 1 to 4 the call raises \<^verbatim>\<open>TypeError\<close>.
  So once the checks have passed, each constructor ends in this \<^verbatim>\<open>TypeError\<close>; and when
  a check raises, the constructor raises the same error.
\<close>

lemma create_channel_TypeError:
  assumes "py_in ch [PyInt 1, PyInt 2, PyInt 3, PyInt 4]"
      and "getitem d ''ccd_temp'' = Inr T"
  shows "create_channel ch d = Inl TypeError"
  using assms by (auto simp: create_channel_def new_channel_def)

lemma create_channel_imgs_TypeError:
  assumes "py_in ch [PyInt 1, PyInt 2, PyInt 3, PyInt 4]"
  shows "create_channel_imgs ch = Inl TypeError"
  using assms by (auto simp: create_channel_imgs_def new_channel_def)

lemma init_checks_passed:
  assumes "init_checks sheet fr sf sk sd d ch bl dir = Inr self"
  shows "py_in ch [PyInt 1, PyInt 2, PyInt 3, PyInt 4]
         \<and> verify_ccd_operation_mode d = Inr ()"
  using assms
  by (auto simp: init_checks_def and_then_def check_channel_def
        split: sum.splits if_splits)

lemma init_checks_imgs_passed:
  assumes "init_checks_imgs sf sk sd d ch bl dir = Inr self"
  shows "py_in ch [PyInt 1, PyInt 2, PyInt 3, PyInt 4]"
  using assms
  by (auto simp: init_checks_imgs_def and_then_def check_channel_def
        split: sum.splits if_splits)

section \<open>The calibration row of \<^verbatim>\<open>_configure_gain\<close>\<close>

text \<open>
  A mode that the validation accepts has its seven keys, so the lookups of
  \<^verbatim>\<open>_configure_gain\<close> and \<^verbatim>\<open>_configure_image_name\<close> succeed on it, and its EM mode
  is 0 or 1.
\<close>

lemma verify_accepted_getitem:
  assumes "verify_ccd_operation_mode d = Inr ()"
  shows "\<exists>em g h p b t T.
           getitem d ''em_mode'' = Inr em \<and> getitem d ''em_gain'' = Inr g \<and>
           getitem d ''hss'' = Inr h \<and> getitem d ''preamp'' = Inr p \<and>
           getitem d ''binn'' = Inr b \<and> getitem d ''t_exp'' = Inr t \<and>
           getitem d ''ccd_temp'' = Inr T \<and>
           verify_values em g h p b t T = Inr ()"
  using assms
  by (auto simp: verify_ccd_operation_mode_def and_then_def split: sum.splits)

lemma verify_values_em_mode:
  "verify_values em g h p b t T = Inr () \<Longrightarrow> py_in em [PyInt 0, PyInt 1]"
  by (auto simp: verify_values_def and_then_def raise_if_def split: sum.splits if_splits)

text \<open>
  Claim C1. For a mode that has the keys \<^verbatim>\<open>em_mode\<close>, \<^verbatim>\<open>hss\<close> and \<^verbatim>\<open>preamp\<close> (every
  mode accepted by the validation has them), the gain is read from column 5 of the row
  whose index is a base plus an offset. The base is 23 for hss 0.1; 19 for hss 1, or 15
  when the EM mode is 1; 11 for hss 10; 7 for hss 20; 3 for hss 30. The offset is 2
  exactly when the preamp equals 2. For every other value of hss the function raises
  \<^verbatim>\<open>ValueError\<close> and no cell is read. The statement holds for any spreadsheet, so the
  row is the one stated.
\<close>

theorem configure_gain_index:
  assumes "getitem d ''em_mode'' = Inr em"
      and "getitem d ''hss'' = Inr h"
      and "getitem d ''preamp'' = Inr p"
  shows "configure_gain sheet ch d =
     (let off = (if num_of p = Some 2 then 2 else 0) in
      if num_of h = Some (1 / 10) then Inr (sheet ch (23 + off) 5)
      else if num_of h = Some 1 then
        (if num_of em = Some 1 then Inr (sheet ch (15 + off) 5)
         else Inr (sheet ch (19 + off) 5))
      else if num_of h = Some 10 then Inr (sheet ch (11 + off) 5)
      else if num_of h = Some 20 then Inr (sheet ch (7 + off) 5)
      else if num_of h = Some 30 then Inr (sheet ch (3 + off) 5)
      else Inl ValueError)"
  using assms by (simp add: configure_gain_def tab_index_def Let_def)

theorem configure_gain_index_witness:
  "getitem [(''em_mode'', PyInt 1), (''em_gain'', PyInt 2), (''hss'', PyInt 1),
            (''preamp'', PyInt 2)] ''em_mode'' = Inr (PyInt 1) \<and>
   getitem [(''em_mode'', PyInt 1), (''em_gain'', PyInt 2), (''hss'', PyInt 1),
            (''preamp'', PyInt 2)] ''hss'' = Inr (PyInt 1) \<and>
   getitem [(''em_mode'', PyInt 1), (''em_gain'', PyInt 2), (''hss'', PyInt 1),
            (''preamp'', PyInt 2)] ''preamp'' = Inr (PyInt 2) \<and>
   configure_gain example_sheet (PyInt 1)
     [(''em_mode'', PyInt 1), (''em_gain'', PyInt 2), (''hss'', PyInt 1),
      (''preamp'', PyInt 2)] = Inr (PyInt 1705)"
proof -
  let ?d = "[(''em_mode'', PyInt 1), (''em_gain'', PyInt 2), (''hss'', PyInt 1),
             (''preamp'', PyInt 2)]"
  have k: "getitem ?d ''em_mode'' = Inr (PyInt 1)" "getitem ?d ''hss'' = Inr (PyInt 1)"
    "getitem ?d ''preamp'' = Inr (PyInt 2)"
    by simp_all
  from configure_gain_index[OF k, of example_sheet "PyInt 1"] k
  show ?thesis by (simp add: example_sheet_def)
qed

section \<open>The outcome of the constructors\<close>

lemma init_after_checks:
  "init coll sheet fr sf sk sd d ch bl dir =
     (case init_checks sheet fr sf sk sd d ch bl dir of
        Inl e \<Rightarrow> Inl e
      | Inr self \<Rightarrow> Inl TypeError)"
proof (cases "init_checks sheet fr sf sk sd d ch bl dir")
  case (Inl e)
  then show ?thesis by (simp add: init_def)
next
  case (Inr self)
  from init_checks_passed[OF Inr] have ch: "py_in ch [PyInt 1, PyInt 2, PyInt 3, PyInt 4]"
    and v: "verify_ccd_operation_mode d = Inr ()" by simp_all
  from verify_accepted_getitem[OF v] obtain T where "getitem d ''ccd_temp'' = Inr T"
    by blast
  from create_channel_TypeError[OF ch this] Inr show ?thesis
    by (simp add: init_def)
qed

lemma init_imgs_after_checks:
  "init_imgs coll sf sk sd d ch bl dir =
     (case init_checks_imgs sf sk sd d ch bl dir of
        Inl e \<Rightarrow> Inl e
      | Inr self \<Rightarrow> Inl TypeError)"
proof (cases "init_checks_imgs sf sk sd d ch bl dir")
  case (Inl e)
  then show ?thesis by (simp add: init_imgs_def)
next
  case (Inr self)
  from create_channel_imgs_TypeError[OF init_checks_imgs_passed[OF Inr]] Inr
  show ?thesis by (simp add: init_imgs_def)
qed

section \<open>Dark current of the channels\<close>

text \<open>
  Claim C4. For each of the channels 1 to 4 and every temperature \<open>T\<close>, the dark current
  of the channel's class is \<open>a * exp (b * T\<^sup>2 + c * T)\<close> with the coefficients that the
  specification lists for the channel, and it is strictly positive for \<open>T\<close> between
  \<open>-80\<close> and \<open>20\<close>. (The abstract class, with channel number 0, returns 0.)
\<close>

theorem dark_current_formula:
  assumes "CHANNEL_ID cls \<in> {1, 2, 3, 4}"
  shows "calculate_dark_current cls T =
           (case spec_coefficients (CHANNEL_ID cls) of
              (a, b, c) \<Rightarrow> a * exp (b * T\<^sup>2 + c * T))
         \<and> (- 80 \<le> T \<and> T \<le> 20 \<longrightarrow> 0 < calculate_dark_current cls T)"
  using assms by (cases cls) simp_all

theorem dark_current_formula_witness:
  "CHANNEL_ID Concrete_Channel_1 \<in> {1, 2, 3, 4} \<and>
   (- 80 \<le> (- 70 :: real) \<and> (- 70 :: real) \<le> 20) \<and>
   calculate_dark_current Concrete_Channel_1 (- 70) =
     24.66 * exp (0.0015 * (- 70)\<^sup>2 + 0.29 * (- 70)) \<and>
   0 < calculate_dark_current Concrete_Channel_1 (- 70)"
proof -
  have c: "CHANNEL_ID Concrete_Channel_1 \<in> {1, 2, 3, 4}" by simp
  from dark_current_formula[OF c, of "- 70"] c
  show ?thesis by simp
qed

section \<open>The order of the keys in \<^verbatim>\<open>Artificial_Images_Simulator\<close>\<close>

lemma verify_imgs_order:
  assumes "set (keys d) = set dic_keywords_list_imgs"
      and "keys d \<noteq> dic_keywords_list_imgs"
  shows "verify_ccd_operation_mode_imgs d = Inl ValueError"
  using assms by (simp add: verify_ccd_operation_mode_imgs_def check_keys_subset)

text \<open>
  Claim C9. In \<^verbatim>\<open>Artificial_Images_Simulator\<close>, a dictionary whose keys are exactly the
  seven keywords but whose insertion order is not that of the keyword list is rejected:
  the validation raises \<^verbatim>\<open>ValueError\<close>, and so does the constructor, whatever the
  other arguments and the collaborators are.
\<close>

theorem key_order_sensitive:
  assumes "set (keys d) = set dic_keywords_list_imgs"
      and "keys d \<noteq> dic_keywords_list_imgs"
  shows "verify_ccd_operation_mode_imgs d = Inl ValueError
         \<and> init_imgs coll sf sk sd d ch bl dir = Inl ValueError"
proof -
  have v: "verify_ccd_operation_mode_imgs d = Inl ValueError"
    by (rule verify_imgs_order[OF assms])
  have "init_checks_imgs sf sk sd d ch bl dir = Inl ValueError"
    using v check_flux_imgs_cases[of sf] check_flux_imgs_cases[of sk]
      check_gaussian_stddev_imgs_cases[of sd]
    by (auto simp: init_checks_imgs_def)
  then have "init_imgs coll sf sk sd d ch bl dir = Inl ValueError"
    by (simp add: init_imgs_after_checks)
  with v show ?thesis by simp
qed

theorem key_order_sensitive_witness:
  "set (keys [(''em_gain'', PyInt 1), (''em_mode'', PyInt 0), (''preamp'', PyInt 1),
              (''hss'', PyInt 1), (''bin'', PyInt 1), (''t_exp'', PyInt 1),
              (''ccd_temp'', PyInt (- 70))]) = set dic_keywords_list_imgs \<and>
   keys [(''em_gain'', PyInt 1), (''em_mode'', PyInt 0), (''preamp'', PyInt 1),
         (''hss'', PyInt 1), (''bin'', PyInt 1), (''t_exp'', PyInt 1),
         (''ccd_temp'', PyInt (- 70))] \<noteq> dic_keywords_list_imgs \<and>
   init_imgs example_collaborators_imgs (PyInt 100) (PyInt 50) (PyInt 3)
     [(''em_gain'', PyInt 1), (''em_mode'', PyInt 0), (''preamp'', PyInt 1),
      (''hss'', PyInt 1), (''bin'', PyInt 1), (''t_exp'', PyInt 1),
      (''ccd_temp'', PyInt (- 70))]
     (PyInt 1) (PyInt 500) (PyStr []) = Inl ValueError"
proof -
  let ?d = "[(''em_gain'', PyInt 1), (''em_mode'', PyInt 0), (''preamp'', PyInt 1),
             (''hss'', PyInt 1), (''bin'', PyInt 1), (''t_exp'', PyInt 1),
             (''ccd_temp'', PyInt (- 70))]"
  have a: "set (keys ?d) = set dic_keywords_list_imgs"
    by (auto simp: keys_def dic_keywords_list_imgs_def)
  have b: "keys ?d \<noteq> dic_keywords_list_imgs"
    by (simp add: keys_def dic_keywords_list_imgs_def)
  from key_order_sensitive[OF a b] a b
  show ?thesis by simp
qed

section \<open>The image name\<close>

text \<open>
  How \<^verbatim>\<open>str\<close> prints: an int below 10 is its digit, a larger int is the print of its
  tenth followed by its last digit, a negative int is a minus sign and the print of its
  opposite; a float with a whole value is the print of that int followed by \<^verbatim>\<open>.0\<close>.
\<close>

lemma str_int_digit: "0 \<le> n \<Longrightarrow> n < 10 \<Longrightarrow> str_int n = [''0123456789'' ! nat n]"
  by (simp add: str_int_def str_nat_digit)

lemma str_int_step:
  assumes "10 \<le> n"
  shows "str_int n = str_int (n div 10) @ str_int (n mod 10)"
proof -
  have big: "\<not> nat n < 10" using assms by linarith
  have "str_nat (nat n) = str_nat (nat n div 10) @ [''0123456789'' ! (nat n mod 10)]"
    by (subst str_nat.simps[of "nat n"]) (simp only: big if_False)
  moreover have "nat n div 10 = nat (n div 10)" "nat n mod 10 = nat (n mod 10)"
    using assms by (simp_all add: nat_div_distrib nat_mod_distrib)
  moreover have "str_int (n mod 10) = [''0123456789'' ! nat (n mod 10)]"
    by (rule str_int_digit) simp_all
  moreover have "str_int n = str_nat (nat n)" "str_int (n div 10) = str_nat (nat (n div 10))"
    using assms by (simp_all add: str_int_def)
  ultimately show ?thesis by simp
qed

lemma str_int_neg: "n < 0 \<Longrightarrow> str_int n = CHR ''-'' # str_int (- n)"
  by (simp add: str_int_def)

lemma py_str_whole_float:
  "\<bar>n\<bar> < 10 ^ 16 \<Longrightarrow> py_str fr (PyFloat (of_int n)) = str_int n @ ''.0''"
proof -
  assume "\<bar>n\<bar> < 10 ^ 16"
  then have "\<bar>real_of_int n\<bar> < 10 ^ 16"
    by (metis of_int_abs of_int_less_iff of_int_numeral of_int_power)
  then show ?thesis by simp
qed

lemma py_str_float_one: "py_str fr (PyFloat 1) = ''1.0''"
  using py_str_whole_float[of 1 fr] by (simp add: str_int_digit)

text \<open>
  Claim C5 as stated fails: the mode below passes the validation and has hss, preamp,
  binn, t_exp and em_gain equal to 1, with t_exp and em_gain given as floats (the type
  that the docstring declares for them), and its image name is
  \<^verbatim>\<open>CONV_HSS1_PA1_B1_TEXP1.0_G1.0\<close>.
\<close>

theorem image_name_float_counterexample:
  "verify_ccd_operation_mode
     [(''em_mode'', PyInt 0), (''em_gain'', PyFloat 1), (''hss'', PyInt 1),
      (''preamp'', PyInt 1), (''binn'', PyInt 1), (''t_exp'', PyFloat 1),
      (''ccd_temp'', PyInt (- 70))] = Inr () \<and>
   py_eq (PyFloat 1) (PyInt 1) \<and>
   configure_image_name example_repr (PyInt 100)
     [(''em_mode'', PyInt 0), (''em_gain'', PyFloat 1), (''hss'', PyInt 1),
      (''preamp'', PyInt 1), (''binn'', PyInt 1), (''t_exp'', PyFloat 1),
      (''ccd_temp'', PyInt (- 70))] False = Inr ''CONV_HSS1_PA1_B1_TEXP1.0_G1.0'' \<and>
   configure_image_name example_repr (PyInt 100)
     [(''em_mode'', PyInt 0), (''em_gain'', PyFloat 1), (''hss'', PyInt 1),
      (''preamp'', PyInt 1), (''binn'', PyInt 1), (''t_exp'', PyFloat 1),
      (''ccd_temp'', PyInt (- 70))] False \<noteq> Inr ''CONV_HSS1_PA1_B1_TEXP1_G1''"
  by (simp add: verify_ccd_operation_mode_def keys_def dic_keywords_list_def list_sort_def
        verify_values_def lt_num_def gt_num_def or_else_def
        configure_image_name_def py_str_float_one str_int_digit)

text \<open>
  Claim C5, amended. For a mode that has the six keys read by
  \<^verbatim>\<open>_configure_image_name\<close> and whose EM mode is 0 or 1 (every mode accepted by the
  validation is such a mode), the image name is \<^verbatim>\<open>CONV\<close> for EM mode 0 and \<^verbatim>\<open>EM\<close>
  otherwise, followed by \<^verbatim>\<open>_HSS\<close>, \<^verbatim>\<open>_PA\<close>, \<^verbatim>\<open>_B\<close>, \<^verbatim>\<open>_TEXP\<close> and \<^verbatim>\<open>_G\<close>, each with
  \<^verbatim>\<open>str\<close> of hss, preamp, binn, t_exp and em_gain as they were passed. \<^verbatim>\<open>str\<close> prints
  an int in decimal and a float with a whole value below \<open>10\<^sup>1\<^sup>6\<close> as that number
  followed by \<^verbatim>\<open>.0\<close>. So for the conventional mode with the five values given as the
  int 1 the name is \<^verbatim>\<open>CONV_HSS1_PA1_B1_TEXP1_G1\<close>, and with t_exp and em_gain given as
  the float 1.0 it is \<^verbatim>\<open>CONV_HSS1_PA1_B1_TEXP1.0_G1.0\<close>.
\<close>

theorem image_name_format:
  assumes "getitem d ''em_mode'' = Inr em" and "getitem d ''em_gain'' = Inr g"
      and "getitem d ''hss'' = Inr h" and "getitem d ''preamp'' = Inr p"
      and "getitem d ''binn'' = Inr b" and "getitem d ''t_exp'' = Inr t"
      and "py_in em [PyInt 0, PyInt 1]"
  shows "configure_image_name fr sf d False =
           Inr ((if py_eq em (PyInt 0) then ''CONV'' else ''EM'') @
                ''_HSS'' @ py_str fr h @ ''_PA'' @ py_str fr p @ ''_B'' @ py_str fr b @
                ''_TEXP'' @ py_str fr t @ ''_G'' @ py_str fr g)
         \<and> (\<forall>n. 0 \<le> n \<and> n < 10 \<longrightarrow> py_str fr (PyInt n) = [''0123456789'' ! nat n])
         \<and> (\<forall>n. 10 \<le> n \<longrightarrow>
                py_str fr (PyInt n) = py_str fr (PyInt (n div 10)) @ py_str fr (PyInt (n mod 10)))
         \<and> (\<forall>n. n < 0 \<longrightarrow> py_str fr (PyInt n) = CHR ''-'' # py_str fr (PyInt (- n)))
         \<and> (\<forall>n. \<bar>n\<bar> < 10 ^ 16 \<longrightarrow>
                py_str fr (PyFloat (of_int n)) = py_str fr (PyInt n) @ ''.0'')
         \<and> (em = PyInt 0 \<and> h = PyInt 1 \<and> p = PyInt 1 \<and> b = PyInt 1 \<and> t = PyInt 1 \<and>
              g = PyInt 1 \<longrightarrow>
              configure_image_name fr sf d False = Inr ''CONV_HSS1_PA1_B1_TEXP1_G1'')
         \<and> (em = PyInt 0 \<and> h = PyInt 1 \<and> p = PyInt 1 \<and> b = PyInt 1 \<and> t = PyFloat 1 \<and>
              g = PyFloat 1 \<longrightarrow>
              configure_image_name fr sf d False = Inr ''CONV_HSS1_PA1_B1_TEXP1.0_G1.0'')"
proof -
  have name: "configure_image_name fr sf d False =
           Inr ((if py_eq em (PyInt 0) then ''CONV'' else ''EM'') @
                ''_HSS'' @ py_str fr h @ ''_PA'' @ py_str fr p @ ''_B'' @ py_str fr b @
                ''_TEXP'' @ py_str fr t @ ''_G'' @ py_str fr g)"
    using assms by (auto simp: configure_image_name_def)
  have digit: "\<forall>n. 0 \<le> n \<and> n < 10 \<longrightarrow> py_str fr (PyInt n) = [''0123456789'' ! nat n]"
    by (simp add: str_int_digit)
  have step: "\<forall>n. 10 \<le> n \<longrightarrow>
      py_str fr (PyInt n) = py_str fr (PyInt (n div 10)) @ py_str fr (PyInt (n mod 10))"
    by (simp add: str_int_step)
  have neg: "\<forall>n. n < 0 \<longrightarrow> py_str fr (PyInt n) = CHR ''-'' # py_str fr (PyInt (- n))"
    by (simp add: str_int_neg)
  have whole: "\<forall>n. \<bar>n\<bar> < 10 ^ 16 \<longrightarrow>
      py_str fr (PyFloat (of_int n)) = py_str fr (PyInt n) @ ''.0''"
    using py_str_whole_float by simp
  have ints: "em = PyInt 0 \<and> h = PyInt 1 \<and> p = PyInt 1 \<and> b = PyInt 1 \<and> t = PyInt 1 \<and>
      g = PyInt 1 \<longrightarrow> configure_image_name fr sf d False = Inr ''CONV_HSS1_PA1_B1_TEXP1_G1''"
    using name by (simp add: str_int_digit)
  have floats: "em = PyInt 0 \<and> h = PyInt 1 \<and> p = PyInt 1 \<and> b = PyInt 1 \<and>
      t = PyFloat 1 \<and> g = PyFloat 1 \<longrightarrow>
      configure_image_name fr sf d False = Inr ''CONV_HSS1_PA1_B1_TEXP1.0_G1.0''"
    using name by (simp add: str_int_digit py_str_float_one del: py_str.simps(2))
  from name digit step neg whole ints floats show ?thesis by blast
qed

theorem image_name_format_witness:
  "getitem [(''em_mode'', PyInt 0), (''em_gain'', PyFloat 1), (''hss'', PyInt 1),
            (''preamp'', PyInt 2), (''binn'', PyInt 2), (''t_exp'', PyInt 120),
            (''ccd_temp'', PyInt (- 70))] ''em_mode'' = Inr (PyInt 0) \<and>
   py_in (PyInt 0) [PyInt 0, PyInt 1] \<and>
   verify_ccd_operation_mode
     [(''em_mode'', PyInt 0), (''em_gain'', PyFloat 1), (''hss'', PyInt 1),
      (''preamp'', PyInt 2), (''binn'', PyInt 2), (''t_exp'', PyInt 120),
      (''ccd_temp'', PyInt (- 70))] = Inr () \<and>
   configure_image_name example_repr (PyInt 100)
     [(''em_mode'', PyInt 0), (''em_gain'', PyFloat 1), (''hss'', PyInt 1),
      (''preamp'', PyInt 2), (''binn'', PyInt 2), (''t_exp'', PyInt 120),
      (''ccd_temp'', PyInt (- 70))] False = Inr ''CONV_HSS1_PA2_B2_TEXP120_G1.0''"
proof -
  let ?d = "[(''em_mode'', PyInt 0), (''em_gain'', PyFloat 1), (''hss'', PyInt 1),
             (''preamp'', PyInt 2), (''binn'', PyInt 2), (''t_exp'', PyInt 120),
             (''ccd_temp'', PyInt (- 70))]"
  have k: "getitem ?d ''em_mode'' = Inr (PyInt 0)"
    "getitem ?d ''em_gain'' = Inr (PyFloat 1)"
    "getitem ?d ''hss'' = Inr (PyInt 1)"
    "getitem ?d ''preamp'' = Inr (PyInt 2)"
    "getitem ?d ''binn'' = Inr (PyInt 2)"
    "getitem ?d ''t_exp'' = Inr (PyInt 120)"
    by simp_all
  have m: "py_in (PyInt 0) [PyInt 0, PyInt 1]" by simp
  have v: "verify_ccd_operation_mode ?d = Inr ()"
    by (simp add: verify_ccd_operation_mode_def keys_def dic_keywords_list_def list_sort_def
          verify_values_def lt_num_def gt_num_def or_else_def)
  have e: "str_int 120 = ''120''" by code_simp
  from image_name_format[OF k m, of example_repr "PyInt 100"]
  have "configure_image_name example_repr (PyInt 100) ?d False =
          Inr ''CONV_HSS1_PA2_B2_TEXP120_G1.0''"
    by (simp add: e str_int_digit py_str_float_one del: py_str.simps(2))
  with k(1) m v show ?thesis by simp
qed

text \<open>
  The same format in \<^verbatim>\<open>Artificial_Images_Simulator\<close>, whose dictionary has the key
  \<^verbatim>\<open>bin\<close>.
\<close>

lemma image_name_format_imgs:
  assumes "getitem (ccd_operation_mode_imgs self) ''em_mode'' = Inr em"
      and "getitem (ccd_operation_mode_imgs self) ''em_gain'' = Inr g"
      and "getitem (ccd_operation_mode_imgs self) ''hss'' = Inr h"
      and "getitem (ccd_operation_mode_imgs self) ''preamp'' = Inr p"
      and "getitem (ccd_operation_mode_imgs self) ''bin'' = Inr b"
      and "getitem (ccd_operation_mode_imgs self) ''t_exp'' = Inr t"
      and "py_in em [PyInt 0, PyInt 1]"
  shows "configure_image_name_imgs fr self False =
           Inr (self\<lparr>image_name_imgs :=
                  (if py_eq em (PyInt 0) then ''CONV'' else ''EM'') @
                  ''_HSS'' @ py_str fr h @ ''_PA'' @ py_str fr p @ ''_B'' @ py_str fr b @
                  ''_TEXP'' @ py_str fr t @ ''_G'' @ py_str fr g\<rparr>)"
  using assms
  by (auto simp: configure_image_name_imgs_def Let_def)

section \<open>Composition of the image\<close>

lemma np_add_same_shape:
  assumes "map length a = map length b"
  shows "\<exists>img. np_add a b = Some img \<and> map length img = map length a \<and>
           (\<forall>i < length a. \<forall>j < length (a ! i). img ! i ! j = a ! i ! j + b ! i ! j)"
proof -
  have len: "length a = length b" using assms by (metis length_map)
  have row: "length (a ! i) = length (b ! i)" if "i < length a" for i
    using that assms len by (metis nth_map)
  let ?img = "map2 (\<lambda>ra rb. map2 (\<lambda>x y. x + y) ra rb) a b"
  have "np_add a b = Some ?img" using assms by (simp add: np_add_def)
  moreover have "map length ?img = map length a"
    using len row by (auto intro!: nth_equalityI)
  moreover have "\<forall>i < length a. \<forall>j < length (a ! i). ?img ! i ! j = a ! i ! j + b ! i ! j"
    using len row by auto
  ultimately show ?thesis by blast
qed

text \<open>
  Claim C6. When the background and the star image have the same shape,
  \<^verbatim>\<open>create_artificial_image\<close> writes, under the name made of the directory, the image
  name and \<^verbatim>\<open>.fits\<close>, an image of that shape whose pixel at every position is the sum
  of the background's pixel and the star image's pixel there, together with the header;
  nothing else is done to the two images.
\<close>

theorem create_artificial_image_sum:
  assumes "map length background = map length star_PSF"
  shows "\<exists>img. create_artificial_image self background star_PSF header files =
                 Some (files(image_dir self @ image_name self @ ''.fits'' \<mapsto> (img, header)))
           \<and> map length img = map length background
           \<and> (\<forall>i < length background. \<forall>j < length (background ! i).
                 img ! i ! j = background ! i ! j + star_PSF ! i ! j)"
proof -
  from np_add_same_shape[OF assms] obtain img where
    "np_add background star_PSF = Some img" "map length img = map length background"
    "\<forall>i < length background. \<forall>j < length (background ! i).
       img ! i ! j = background ! i ! j + star_PSF ! i ! j"
    by blast
  then show ?thesis
    by (intro exI[of _ img]) (simp add: create_artificial_image_def)
qed

theorem create_artificial_image_sum_witness:
  "map length [[1, 2], [3, 4 :: int]] = map length [[10, 20], [30, 40 :: int]] \<and>
   create_artificial_image
     \<lparr>star_flux = PyInt 100, sky_flux = PyInt 50, gaussian_std = PyInt 3,
      channel = PyInt 1, bias_level = PyInt 500, image_dir = [],
      ccd_gain = PyInt 1905, image_name = ''CONV_HSS1_PA1_B1_TEXP1_G1''\<rparr>
     [[1, 2], [3, 4 :: int]] [[10, 20], [30, 40]] ''header'' Map.empty =
   Some [''CONV_HSS1_PA1_B1_TEXP1_G1.fits'' \<mapsto> ([[11, 22], [33, 44]], ''header'')]"
proof -
  have s: "map length [[1, 2], [3, 4 :: int]] = map length [[10, 20], [30, 40 :: int]]"
    by simp
  from create_artificial_image_sum[OF s] s
  show ?thesis by (simp add: create_artificial_image_def np_add_def)
qed

section \<open>Validation of the EM gain\<close>

text \<open>
  In \<^verbatim>\<open>Artificial_Image_Simulator\<close>, line 220 tests \<^verbatim>\<open>em_gain not in [float, int]\<close>:
  the gain itself is compared with the two type objects, where the checks of the
  exposure time and of the temperature (lines 239 and 246) compare \<^verbatim>\<open>type(...)\<close>.
  A number is never equal to a type object, so every number is rejected there; a type
  object passes the test and then fails the comparison \<^verbatim>\<open>em_gain < 2\<close> with
  \<^verbatim>\<open>TypeError\<close>. No mode with an EM mode other than 0 is accepted.
\<close>

lemma verify_values_never_em:
  "\<not> py_eq em (PyInt 0) \<Longrightarrow> verify_values em g h p b t T \<noteq> Inr ()"
  by (auto simp: verify_values_def and_then_def raise_if_def or_else_def lt_num_def
        split: sum.splits if_splits)

lemma verify_never_em:
  assumes "getitem d ''em_mode'' = Inr em" and "\<not> py_eq em (PyInt 0)"
  shows "verify_ccd_operation_mode d \<noteq> Inr ()"
proof
  assume "verify_ccd_operation_mode d = Inr ()"
  from verify_accepted_getitem[OF this] assms(1) obtain g h p b t T where
    "verify_values em g h p b t T = Inr ()" by auto
  with verify_values_never_em[OF assms(2)] show False by blast
qed

lemma verify_values_conventional:
  assumes "verify_values (PyInt 0) (PyInt 1) h p b t T = Inr ()" and "py_eq em (PyInt 0)"
  shows "verify_values em g h p b t T =
           (if py_eq g (PyInt 1) then Inr () else Inl ValueError)"
  using assms by (simp add: verify_values_def)

lemma verify_imgs_conventional:
  assumes "verify_ccd_operation_mode_imgs (mode_imgs (PyInt 0) (PyInt 1) p h b t T) = Inr ()"
      and "py_eq em (PyInt 0)"
  shows "verify_ccd_operation_mode_imgs (mode_imgs em g p h b t T) =
           (if py_eq g (PyInt 1) then Inr () else Inl ValueError)"
  using assms
  by (simp add: verify_ccd_operation_mode_imgs_def mode_imgs_def keys_def
        dic_keywords_list_imgs_def)

lemma verify_imgs_em:
  assumes "verify_ccd_operation_mode_imgs (mode_imgs (PyInt 0) (PyInt 1) p h b t T) = Inr ()"
      and "py_eq em (PyInt 1)"
  shows "verify_ccd_operation_mode_imgs (mode_imgs em g p h b t T) = Inr () \<longleftrightarrow>
           (\<exists>x. num_of g = Some x \<and> 2 \<le> x \<and> x \<le> 300)"
  using assms
  by (cases "num_of g")
     (auto simp: verify_ccd_operation_mode_imgs_def mode_imgs_def keys_def
        dic_keywords_list_imgs_def or_else_def lt_num_def gt_num_def raise_if_def
      split: if_splits)

text \<open>
  Claim C2, evaluated on \<^verbatim>\<open>Artificial_Image_Simulator\<close>: the EM mode with the gain 2,
  inside the range from 2 to 300, and all other fields valid is rejected with
  \<^verbatim>\<open>ValueError\<close>. (The part of the claim on the conventional mode holds in both
  revisions, \<open>verify_values_conventional\<close> and \<open>verify_imgs_conventional\<close>, and the
  part on the EM mode holds in \<^verbatim>\<open>Artificial_Images_Simulator\<close>, \<open>verify_imgs_em\<close>.)
\<close>

theorem em_gain_rejected:
  "verify_ccd_operation_mode
     [(''em_mode'', PyInt 1), (''em_gain'', PyInt 2), (''hss'', PyInt 1), (''preamp'', PyInt 1),
      (''binn'', PyInt 1), (''t_exp'', PyInt 1), (''ccd_temp'', PyInt (- 70))]
   = Inl ValueError"
  by (simp add: verify_ccd_operation_mode_def keys_def dic_keywords_list_def list_sort_def
        verify_values_def)

section \<open>The keys of the operation mode\<close>

text \<open>
  \<^verbatim>\<open>Artificial_Image_Simulator\<close> reads the seven values (lines 192 to 198) before it
  looks at the keys, so a missing key raises \<^verbatim>\<open>KeyError\<close> there; the comparison of
  line 208, meant to find a missing key, compares \<^verbatim>\<open>None\<close> with \<^verbatim>\<open>None\<close> and never
  raises. A dictionary that has the seven keys and another one raises \<^verbatim>\<open>ValueError\<close>
  in the loop over the keys, and a dictionary with exactly the seven keys, in any order,
  passes on to the checks of the values.
\<close>

lemma verify_all_present:
  assumes "verify_ccd_operation_mode d \<noteq> Inl KeyError"
  shows "\<forall>k \<in> set dic_keywords_list. map_of d k \<noteq> None"
  using assms
  by (simp add: verify_ccd_operation_mode_def dic_keywords_list_def getitem_def
        split: option.splits)

lemma verify_missing_key:
  assumes "k \<in> set dic_keywords_list" and "k \<notin> set (keys d)"
  shows "verify_ccd_operation_mode d = Inl KeyError"
proof (rule ccontr)
  assume "verify_ccd_operation_mode d \<noteq> Inl KeyError"
  then have "map_of d k \<noteq> None"
    using assms(1) verify_all_present by blast
  then show False
    using assms(2) by (simp add: keys_def map_of_eq_None_iff)
qed

lemma present_getitem:
  assumes "set dic_keywords_list \<subseteq> set (keys d)"
  shows "\<exists>em g h p b t T.
           getitem d ''em_mode'' = Inr em \<and> getitem d ''em_gain'' = Inr g \<and>
           getitem d ''hss'' = Inr h \<and> getitem d ''preamp'' = Inr p \<and>
           getitem d ''binn'' = Inr b \<and> getitem d ''t_exp'' = Inr t \<and>
           getitem d ''ccd_temp'' = Inr T"
proof -
  have ex: "\<exists>v. getitem d k = Inr v" if "k \<in> set dic_keywords_list" for k
    using that assms getitem_cases[of d k] getitem_keys[of d k] by auto
  have "\<exists>v. getitem d ''em_mode'' = Inr v" by (rule ex) (simp add: dic_keywords_list_def)
  moreover have "\<exists>v. getitem d ''em_gain'' = Inr v" by (rule ex) (simp add: dic_keywords_list_def)
  moreover have "\<exists>v. getitem d ''hss'' = Inr v" by (rule ex) (simp add: dic_keywords_list_def)
  moreover have "\<exists>v. getitem d ''preamp'' = Inr v" by (rule ex) (simp add: dic_keywords_list_def)
  moreover have "\<exists>v. getitem d ''binn'' = Inr v" by (rule ex) (simp add: dic_keywords_list_def)
  moreover have "\<exists>v. getitem d ''t_exp'' = Inr v" by (rule ex) (simp add: dic_keywords_list_def)
  moreover have "\<exists>v. getitem d ''ccd_temp'' = Inr v" by (rule ex) (simp add: dic_keywords_list_def)
  ultimately show ?thesis by blast
qed

lemma verify_extra_key:
  assumes "set dic_keywords_list \<subseteq> set (keys d)"
      and "\<not> set (keys d) \<subseteq> set dic_keywords_list"
  shows "verify_ccd_operation_mode d = Inl ValueError"
proof -
  from present_getitem[OF assms(1)] obtain em g h p b t T where
    "getitem d ''em_mode'' = Inr em" "getitem d ''em_gain'' = Inr g"
    "getitem d ''hss'' = Inr h" "getitem d ''preamp'' = Inr p"
    "getitem d ''binn'' = Inr b" "getitem d ''t_exp'' = Inr t"
    "getitem d ''ccd_temp'' = Inr T"
    by blast
  then show ?thesis
    using assms(2) by (simp add: verify_ccd_operation_mode_def check_keys_subset)
qed

lemma verify_exact_keys:
  assumes "set (keys d) = set dic_keywords_list"
  shows "\<exists>em g h p b t T.
           getitem d ''em_mode'' = Inr em \<and> getitem d ''em_gain'' = Inr g \<and>
           getitem d ''hss'' = Inr h \<and> getitem d ''preamp'' = Inr p \<and>
           getitem d ''binn'' = Inr b \<and> getitem d ''t_exp'' = Inr t \<and>
           getitem d ''ccd_temp'' = Inr T \<and>
           verify_ccd_operation_mode d = verify_values em g h p b t T"
proof -
  have "set dic_keywords_list \<subseteq> set (keys d)" using assms by simp
  from present_getitem[OF this] obtain em g h p b t T where g:
    "getitem d ''em_mode'' = Inr em" "getitem d ''em_gain'' = Inr g"
    "getitem d ''hss'' = Inr h" "getitem d ''preamp'' = Inr p"
    "getitem d ''binn'' = Inr b" "getitem d ''t_exp'' = Inr t"
    "getitem d ''ccd_temp'' = Inr T"
    by blast
  then have "verify_ccd_operation_mode d = verify_values em g h p b t T"
    using assms by (simp add: verify_ccd_operation_mode_def check_keys_subset list_sort_def)
  with g show ?thesis by blast
qed

lemma verify_imgs_missing_key:
  assumes "set (keys d) \<subset> set dic_keywords_list_imgs"
  shows "verify_ccd_operation_mode_imgs d = Inl ValueError"
proof -
  have "keys d \<noteq> dic_keywords_list_imgs" using assms by auto
  moreover have "set (keys d) \<subseteq> set dic_keywords_list_imgs" using assms by auto
  ultimately show ?thesis
    by (simp add: verify_ccd_operation_mode_imgs_def check_keys_subset)
qed

text \<open>
  Claim C7, evaluated on \<^verbatim>\<open>Artificial_Image_Simulator\<close>: for the dictionary of a valid
  conventional mode without the key \<^verbatim>\<open>ccd_temp\<close> the validation raises \<^verbatim>\<open>KeyError\<close>,
  which is not a \<^verbatim>\<open>ValueError\<close>.
\<close>

theorem missing_key_raises_KeyError:
  "verify_ccd_operation_mode
     [(''em_mode'', PyInt 0), (''em_gain'', PyInt 1), (''hss'', PyInt 1), (''preamp'', PyInt 1),
      (''binn'', PyInt 1), (''t_exp'', PyInt 1)] = Inl KeyError"
  by (simp add: verify_ccd_operation_mode_def)

section \<open>The bias level\<close>

lemma check_bias_level_pos: "0 < n \<Longrightarrow> check_bias_level (PyInt n) = Inr (PyInt n)"
  by (simp add: check_bias_level_def le_num_def)

lemma check_bias_level_nonpos: "n \<le> 0 \<Longrightarrow> check_bias_level (PyInt n) = Inl ValueError"
  by (simp add: check_bias_level_def le_num_def)

lemma check_bias_level_type: "type_of b \<noteq> TInt \<Longrightarrow> check_bias_level b = Inl ValueError"
  by (simp add: check_bias_level_def)

lemma check_bias_level_imgs_nonneg:
  "0 \<le> n \<Longrightarrow> check_bias_level_imgs (PyInt n) = Inr (PyInt n)"
  by (simp add: check_bias_level_imgs_def ge_num_def)

lemma check_bias_level_imgs_neg:
  "n < 0 \<Longrightarrow> check_bias_level_imgs (PyInt n) = Inl ValueError"
  by (simp add: check_bias_level_imgs_def ge_num_def)

lemma check_bias_level_imgs_type:
  "type_of b \<noteq> TInt \<Longrightarrow> check_bias_level_imgs b = Inl ValueError"
  by (simp add: check_bias_level_imgs_def)

lemma init_checks_bias_rejected:
  assumes "check_bias_level b = Inl ValueError"
  shows "init_checks sheet fr sf sk sd d ch b dir = Inl ValueError"
  using assms check_flux_cases[of sf] check_flux_cases[of sk] check_gaussian_std_cases[of sd]
    check_channel_cases[of ch]
  by (auto simp: init_checks_def)

lemma init_bias_rejected:
  assumes "check_bias_level b = Inl ValueError"
  shows "init coll sheet fr sf sk sd d ch b dir = Inl ValueError"
  by (simp add: init_after_checks init_checks_bias_rejected[OF assms])

lemma init_checks_bias_accepted:
  assumes "check_bias_level b = Inr b" and "check_bias_level b0 = Inr b0"
  shows "init_checks sheet fr sf sk sd d ch b dir =
           map_sum id (\<lambda>self. self\<lparr>bias_level := b\<rparr>)
             (init_checks sheet fr sf sk sd d ch b0 dir)"
  using assms by (simp add: init_checks_def and_then_def split: sum.splits)

lemma init_checks_imgs_bias_rejected:
  assumes "verify_ccd_operation_mode_imgs d = Inr ()"
      and "check_bias_level_imgs b = Inl ValueError"
  shows "init_checks_imgs sf sk sd d ch b dir = Inl ValueError"
  using assms check_flux_imgs_cases[of sf] check_flux_imgs_cases[of sk]
    check_gaussian_stddev_imgs_cases[of sd] check_channel_cases[of ch]
  by (auto simp: init_checks_imgs_def)

lemma init_imgs_bias_rejected:
  assumes "verify_ccd_operation_mode_imgs d = Inr ()"
      and "check_bias_level_imgs b = Inl ValueError"
  shows "init_imgs coll sf sk sd d ch b dir = Inl ValueError"
  by (simp add: init_imgs_after_checks init_checks_imgs_bias_rejected[OF assms])

lemma init_checks_imgs_bias_accepted:
  assumes "check_bias_level_imgs b = Inr b" and "check_bias_level_imgs b0 = Inr b0"
  shows "init_checks_imgs sf sk sd d ch b dir =
           map_sum id (\<lambda>self. self\<lparr>bias_level_imgs := b\<rparr>)
             (init_checks_imgs sf sk sd d ch b0 dir)"
  using assms by (simp add: init_checks_imgs_def and_then_def split: sum.splits)

text \<open>
  Claim C8 as stated fails. In \<^verbatim>\<open>Artificial_Image_Simulator\<close>, with arguments whose
  checks pass together with the bias level 500, the bias level 0 is rejected with
  \<^verbatim>\<open>ValueError\<close>, by the checks and so by the constructor (line 156 rejects
  \<^verbatim>\<open>bias_level <= 0\<close>). In \<^verbatim>\<open>Artificial_Images_Simulator\<close>, with an exposure time
  that is a string, the bias level 1.5 is not looked at: the validation of the mode,
  which comes first, raises \<^verbatim>\<open>TypeError\<close>.
\<close>

theorem bias_level_counterexample:
  "init_checks example_sheet example_repr (PyInt 100) (PyInt 50) (PyInt 3) example_mode
     (PyInt 1) (PyInt 500) (PyStr []) =
   Inr \<lparr>star_flux = PyInt 100, sky_flux = PyInt 50, gaussian_std = PyInt 3,
        channel = PyInt 1, bias_level = PyInt 500, image_dir = [],
        ccd_gain = PyInt 1905, image_name = ''CONV_HSS1_PA1_B1_TEXP1_G1''\<rparr> \<and>
   init_checks example_sheet example_repr (PyInt 100) (PyInt 50) (PyInt 3) example_mode
     (PyInt 1) (PyInt 0) (PyStr []) = Inl ValueError \<and>
   init example_collaborators example_sheet example_repr (PyInt 100) (PyInt 50) (PyInt 3)
     example_mode (PyInt 1) (PyInt 0) (PyStr []) = Inl ValueError \<and>
   init_imgs example_collaborators_imgs (PyInt 100) (PyInt 50) (PyInt 3)
     (mode_imgs (PyInt 0) (PyInt 1) (PyInt 1) (PyInt 1) (PyInt 1) (PyStr ''x'')
        (PyInt (- 70)))
     (PyInt 1) (PyFloat 1.5) (PyStr []) = Inl TypeError"
proof -
  have zero: "init_checks example_sheet example_repr (PyInt 100) (PyInt 50) (PyInt 3)
      example_mode (PyInt 1) (PyInt 0) (PyStr []) = Inl ValueError"
    by (simp add: init_checks_bias_rejected check_bias_level_nonpos)
  have imgs: "init_checks_imgs (PyInt 100) (PyInt 50) (PyInt 3)
      (mode_imgs (PyInt 0) (PyInt 1) (PyInt 1) (PyInt 1) (PyInt 1) (PyStr ''x'')
         (PyInt (- 70)))
      (PyInt 1) (PyFloat 1.5) (PyStr []) = Inl TypeError"
    by (simp add: init_checks_imgs_def check_flux_imgs_def check_gaussian_stddev_imgs_def
          gt_num_def verify_ccd_operation_mode_imgs_def mode_imgs_def keys_def
          dic_keywords_list_imgs_def lt_num_def)
  show ?thesis
    using zero imgs
    by (simp add: init_checks_example init_after_checks init_imgs_after_checks)
qed

text \<open>
  Claim C8, amended. A bias level that is not an int, and a negative int, are rejected
  with \<^verbatim>\<open>ValueError\<close> by both constructors; \<^verbatim>\<open>Artificial_Images_Simulator\<close> does so
  when the operation mode, which it verifies first, is valid.
  \<^verbatim>\<open>Artificial_Image_Simulator\<close> also rejects 0 with \<^verbatim>\<open>ValueError\<close>. For every int
  above 0 its check of the bias level returns the value, and its checks (lines 122 to
  172) do what they do with the default 500 and assign the given value to
  \<^verbatim>\<open>self.bias_level\<close>. The checks of \<^verbatim>\<open>Artificial_Images_Simulator\<close> (lines 128 to
  176) do so for every int from 0 on.
\<close>

theorem bias_level_validated:
  "(type_of b \<noteq> TInt \<longrightarrow> init coll sheet fr sf sk sd d ch b dir = Inl ValueError) \<and>
   (n \<le> 0 \<longrightarrow> init coll sheet fr sf sk sd d ch (PyInt n) dir = Inl ValueError) \<and>
   (0 < n \<longrightarrow>
        check_bias_level (PyInt n) = Inr (PyInt n) \<and>
        init_checks sheet fr sf sk sd d ch (PyInt n) dir =
          map_sum id (\<lambda>self. self\<lparr>bias_level := PyInt n\<rparr>)
            (init_checks sheet fr sf sk sd d ch (PyInt 500) dir)) \<and>
   (verify_ccd_operation_mode_imgs d' = Inr () \<and> type_of b \<noteq> TInt \<longrightarrow>
        init_imgs coll' sf sk sd d' ch b dir = Inl ValueError) \<and>
   (verify_ccd_operation_mode_imgs d' = Inr () \<and> m < 0 \<longrightarrow>
        init_imgs coll' sf sk sd d' ch (PyInt m) dir = Inl ValueError) \<and>
   (0 \<le> m \<longrightarrow>
        check_bias_level_imgs (PyInt m) = Inr (PyInt m) \<and>
        init_checks_imgs sf sk sd d' ch (PyInt m) dir =
          map_sum id (\<lambda>self. self\<lparr>bias_level_imgs := PyInt m\<rparr>)
            (init_checks_imgs sf sk sd d' ch (PyInt 500) dir))"
  by (simp add: init_bias_rejected check_bias_level_type check_bias_level_nonpos
        init_checks_bias_accepted check_bias_level_pos
        init_imgs_bias_rejected check_bias_level_imgs_type check_bias_level_imgs_neg
        init_checks_imgs_bias_accepted check_bias_level_imgs_nonneg)

theorem bias_level_validated_witness:
  "type_of (PyFloat 1.5) \<noteq> TInt \<and>
   init example_collaborators example_sheet example_repr (PyInt 100) (PyInt 50) (PyInt 3)
     example_mode (PyInt 1) (PyFloat 1.5) (PyStr []) = Inl ValueError \<and>
   (0 :: int) < 7 \<and>
   init_checks example_sheet example_repr (PyInt 100) (PyInt 50) (PyInt 3) example_mode
     (PyInt 1) (PyInt 7) (PyStr []) =
   Inr \<lparr>star_flux = PyInt 100, sky_flux = PyInt 50, gaussian_std = PyInt 3,
        channel = PyInt 1, bias_level = PyInt 7, image_dir = [],
        ccd_gain = PyInt 1905, image_name = ''CONV_HSS1_PA1_B1_TEXP1_G1''\<rparr> \<and>
   verify_ccd_operation_mode_imgs
     (mode_imgs (PyInt 0) (PyInt 1) (PyInt 1) (PyInt 1) (PyInt 1) (PyInt 1) (PyInt (- 70)))
     = Inr () \<and>
   init_imgs example_collaborators_imgs (PyInt 100) (PyInt 50) (PyInt 3)
     (mode_imgs (PyInt 0) (PyInt 1) (PyInt 1) (PyInt 1) (PyInt 1) (PyInt 1) (PyInt (- 70)))
     (PyInt 1) (PyFloat 1.5) (PyStr []) = Inl ValueError \<and>
   (0 :: int) \<le> 0 \<and>
   init_checks_imgs (PyInt 100) (PyInt 50) (PyInt 3)
     (mode_imgs (PyInt 0) (PyInt 1) (PyInt 1) (PyInt 1) (PyInt 1) (PyInt 1) (PyInt (- 70)))
     (PyInt 1) (PyInt 0) (PyStr []) =
   Inr \<lparr>star_flux_imgs = PyInt 100, sky_flux_imgs = PyInt 50,
        gaussian_stddev_imgs = PyInt 3,
        ccd_operation_mode_imgs =
          mode_imgs (PyInt 0) (PyInt 1) (PyInt 1) (PyInt 1) (PyInt 1) (PyInt 1) (PyInt (- 70)),
        channel_imgs = PyInt 1, bias_level_imgs = PyInt 0, image_dir_imgs = []\<rparr>"
  using bias_level_validated[where b = "PyFloat 1.5" and n = 7 and m = 0
      and coll = example_collaborators and coll' = example_collaborators_imgs
      and sheet = example_sheet and fr = example_repr and sf = "PyInt 100"
      and sk = "PyInt 50" and sd = "PyInt 3" and d = example_mode and ch = "PyInt 1"
      and dir = "PyStr []"
      and d' = "mode_imgs (PyInt 0) (PyInt 1) (PyInt 1) (PyInt 1) (PyInt 1) (PyInt 1)
                  (PyInt (- 70))"]
  by (simp add: init_checks_example init_checks_imgs_example verify_example_mode_imgs)

section \<open>The image directory\<close>

lemma check_image_dir_type: "type_of x \<noteq> TStr \<Longrightarrow> check_image_dir x = Inl ValueError"
  by (cases x) (simp_all add: check_image_dir_def)

lemma init_checks_dir_rejected:
  assumes "check_image_dir x = Inl ValueError"
  shows "init_checks sheet fr sf sk sd d ch bl x = Inl ValueError"
  using assms check_flux_cases[of sf] check_flux_cases[of sk] check_gaussian_std_cases[of sd]
    check_channel_cases[of ch] check_bias_level_cases[of bl]
  by (auto simp: init_checks_def)

lemma init_dir_rejected:
  assumes "check_image_dir x = Inl ValueError"
  shows "init coll sheet fr sf sk sd d ch bl x = Inl ValueError"
  by (simp add: init_after_checks init_checks_dir_rejected[OF assms])

lemma init_checks_dir_accepted:
  assumes "check_image_dir x = Inr s"
  shows "init_checks sheet fr sf sk sd d ch bl x =
           map_sum id (\<lambda>self. self\<lparr>image_dir := s\<rparr>)
             (init_checks sheet fr sf sk sd d ch bl (PyStr []))"
  using assms
  by (simp add: init_checks_def and_then_def check_image_dir_def split: sum.splits)

lemma init_checks_imgs_dir_rejected:
  assumes "verify_ccd_operation_mode_imgs d = Inr ()"
      and "check_image_dir x = Inl ValueError"
  shows "init_checks_imgs sf sk sd d ch bl x = Inl ValueError"
  using assms check_flux_imgs_cases[of sf] check_flux_imgs_cases[of sk]
    check_gaussian_stddev_imgs_cases[of sd] check_channel_cases[of ch]
    check_bias_level_imgs_cases[of bl]
  by (auto simp: init_checks_imgs_def)

lemma init_imgs_dir_rejected:
  assumes "verify_ccd_operation_mode_imgs d = Inr ()"
      and "check_image_dir x = Inl ValueError"
  shows "init_imgs coll sf sk sd d ch bl x = Inl ValueError"
  by (simp add: init_imgs_after_checks init_checks_imgs_dir_rejected[OF assms])

lemma init_checks_imgs_dir_accepted:
  assumes "check_image_dir x = Inr s"
  shows "init_checks_imgs sf sk sd d ch bl x =
           map_sum id (\<lambda>self. self\<lparr>image_dir_imgs := s\<rparr>)
             (init_checks_imgs sf sk sd d ch bl (PyStr []))"
  using assms
  by (simp add: init_checks_imgs_def and_then_def check_image_dir_def split: sum.splits)

text \<open>
  Claim C10 as stated fails. In \<^verbatim>\<open>Artificial_Images_Simulator\<close>, with an exposure time
  that is a string, the image directory 3, which is not a string, is not rejected with
  \<^verbatim>\<open>ValueError\<close>: the validation of the mode, which comes before the check of the
  directory, raises \<^verbatim>\<open>TypeError\<close>.
\<close>

theorem image_dir_counterexample:
  "type_of (PyInt 3) \<noteq> TStr \<and>
   init_imgs example_collaborators_imgs (PyInt 100) (PyInt 50) (PyInt 3)
     (mode_imgs (PyInt 0) (PyInt 1) (PyInt 1) (PyInt 1) (PyInt 1) (PyStr ''x'')
        (PyInt (- 70)))
     (PyInt 1) (PyInt 500) (PyInt 3) = Inl TypeError"
proof -
  have "init_checks_imgs (PyInt 100) (PyInt 50) (PyInt 3)
      (mode_imgs (PyInt 0) (PyInt 1) (PyInt 1) (PyInt 1) (PyInt 1) (PyStr ''x'')
         (PyInt (- 70)))
      (PyInt 1) (PyInt 500) (PyInt 3) = Inl TypeError"
    by (simp add: init_checks_imgs_def check_flux_imgs_def check_gaussian_stddev_imgs_def
          gt_num_def verify_ccd_operation_mode_imgs_def mode_imgs_def keys_def
          dic_keywords_list_imgs_def lt_num_def)
  then show ?thesis
    by (simp add: init_imgs_after_checks)
qed

text \<open>
  Claim C10, amended. With a non-empty string that does not end in a backslash, the
  checks of each constructor (lines 122 to 172 of \<^verbatim>\<open>Artificial_Image_Simulator\<close>, lines
  128 to 176 of \<^verbatim>\<open>Artificial_Images_Simulator\<close>) do what they do with the empty string
  and assign the string with one backslash appended to \<^verbatim>\<open>self.image_dir\<close>; with the
  empty string or a string that ends in a backslash they assign the string as it is. A
  value that is not a string is rejected with \<^verbatim>\<open>ValueError\<close> by
  \<^verbatim>\<open>Artificial_Image_Simulator\<close>, and by \<^verbatim>\<open>Artificial_Images_Simulator\<close> when the
  operation mode, which it verifies first, is valid.
\<close>

theorem image_dir_normalised:
  "(s \<noteq> [] \<and> last s \<noteq> CHR 0x5C \<longrightarrow>
      init_checks sheet fr sf sk sd d ch bl (PyStr s) =
        map_sum id (\<lambda>self. self\<lparr>image_dir := s @ [CHR 0x5C]\<rparr>)
          (init_checks sheet fr sf sk sd d ch bl (PyStr [])) \<and>
      init_checks_imgs sf sk sd d' ch bl (PyStr s) =
        map_sum id (\<lambda>self. self\<lparr>image_dir_imgs := s @ [CHR 0x5C]\<rparr>)
          (init_checks_imgs sf sk sd d' ch bl (PyStr []))) \<and>
   (s = [] \<or> last s = CHR 0x5C \<longrightarrow>
      init_checks sheet fr sf sk sd d ch bl (PyStr s) =
        map_sum id (\<lambda>self. self\<lparr>image_dir := s\<rparr>)
          (init_checks sheet fr sf sk sd d ch bl (PyStr [])) \<and>
      init_checks_imgs sf sk sd d' ch bl (PyStr s) =
        map_sum id (\<lambda>self. self\<lparr>image_dir_imgs := s\<rparr>)
          (init_checks_imgs sf sk sd d' ch bl (PyStr []))) \<and>
   (type_of x \<noteq> TStr \<longrightarrow>
      init coll sheet fr sf sk sd d ch bl x = Inl ValueError \<and>
      (verify_ccd_operation_mode_imgs d' = Inr () \<longrightarrow>
         init_imgs coll' sf sk sd d' ch bl x = Inl ValueError))"
proof -
  have a: "s \<noteq> [] \<Longrightarrow> last s \<noteq> CHR 0x5C \<Longrightarrow>
             check_image_dir (PyStr s) = Inr (s @ [CHR 0x5C])"
    by (simp add: check_image_dir_def)
  have b: "s = [] \<or> last s = CHR 0x5C \<Longrightarrow> check_image_dir (PyStr s) = Inr s"
    by (auto simp: check_image_dir_def)
  show ?thesis
    using a b
    by (auto simp: init_checks_dir_accepted init_checks_imgs_dir_accepted init_dir_rejected
          init_imgs_dir_rejected check_image_dir_type)
qed

theorem image_dir_normalised_witness:
  "''out'' \<noteq> [] \<and> last ''out'' \<noteq> CHR 0x5C \<and>
   init_checks example_sheet example_repr (PyInt 100) (PyInt 50) (PyInt 3) example_mode
     (PyInt 1) (PyInt 500) (PyStr ''out'') =
   Inr \<lparr>star_flux = PyInt 100, sky_flux = PyInt 50, gaussian_std = PyInt 3,
        channel = PyInt 1, bias_level = PyInt 500, image_dir = ''out'' @ [CHR 0x5C],
        ccd_gain = PyInt 1905, image_name = ''CONV_HSS1_PA1_B1_TEXP1_G1''\<rparr> \<and>
   type_of (PyInt 3) \<noteq> TStr \<and>
   init example_collaborators example_sheet example_repr (PyInt 100) (PyInt 50) (PyInt 3)
     example_mode (PyInt 1) (PyInt 500) (PyInt 3) = Inl ValueError \<and>
   verify_ccd_operation_mode_imgs
     (mode_imgs (PyInt 0) (PyInt 1) (PyInt 1) (PyInt 1) (PyInt 1) (PyInt 1) (PyInt (- 70)))
     = Inr () \<and>
   init_imgs example_collaborators_imgs (PyInt 100) (PyInt 50) (PyInt 3)
     (mode_imgs (PyInt 0) (PyInt 1) (PyInt 1) (PyInt 1) (PyInt 1) (PyInt 1) (PyInt (- 70)))
     (PyInt 1) (PyInt 500) (PyInt 3) = Inl ValueError \<and>
   init_checks_imgs (PyInt 100) (PyInt 50) (PyInt 3)
     (mode_imgs (PyInt 0) (PyInt 1) (PyInt 1) (PyInt 1) (PyInt 1) (PyInt 1) (PyInt (- 70)))
     (PyInt 1) (PyInt 500) (PyStr ''out'') =
   Inr \<lparr>star_flux_imgs = PyInt 100, sky_flux_imgs = PyInt 50,
        gaussian_stddev_imgs = PyInt 3,
        ccd_operation_mode_imgs =
          mode_imgs (PyInt 0) (PyInt 1) (PyInt 1) (PyInt 1) (PyInt 1) (PyInt 1) (PyInt (- 70)),
        channel_imgs = PyInt 1, bias_level_imgs = PyInt 500,
        image_dir_imgs = ''out'' @ [CHR 0x5C]\<rparr>"
  using image_dir_normalised[where s = "''out''" and x = "PyInt 3"
      and coll = example_collaborators and coll' = example_collaborators_imgs
      and sheet = example_sheet and fr = example_repr and sf = "PyInt 100"
      and sk = "PyInt 50" and sd = "PyInt 3" and d = example_mode and ch = "PyInt 1"
      and bl = "PyInt 500"
      and d' = "mode_imgs (PyInt 0) (PyInt 1) (PyInt 1) (PyInt 1) (PyInt 1) (PyInt 1)
                  (PyInt (- 70))"]
  by (simp add: init_checks_example init_checks_imgs_example verify_example_mode_imgs)

end
